theory Spec2Isabelle
  imports Main
begin

section \<open>Compatibility configuration\<close>

text \<open>
  The engines whose availability \<^verbatim>\<open>setup\<close> decides, and the three execution phases of a
  \<^verbatim>\<open>CompatibilityConfig\<close>. A flag that is absent (\<^verbatim>\<open>undefined\<close>) is \<open>None\<close>: setup has
  no opinion and the target's own table decides; \<open>Some True\<close> and \<open>Some False\<close> are what
  setup (or the user) writes.
\<close>

datatype engine = Satori | Resvg | Sharp | Chromium

type_synonym flags = "engine \<rightharpoonup> bool"

record CompatibilityConfig =
  runtime :: flags
  dev :: flags
  prerender :: flags

definition no_compatibility :: CompatibilityConfig where
  "no_compatibility = \<lparr>runtime = Map.empty, dev = Map.empty, prerender = Map.empty\<rparr>"

text \<open>
  \<^verbatim>\<open>defu(a, b)\<close> of the \<^verbatim>\<open>defu\<close> package, on compatibility objects: every flag that
  \<^verbatim>\<open>a\<close> defines wins, every other flag is taken from the defaults \<^verbatim>\<open>b\<close>. An absent
  phase of \<^verbatim>\<open>a\<close> or \<^verbatim>\<open>b\<close> is the empty map, and an absent \<^verbatim>\<open>b\<close> is
  \<open>no_compatibility\<close>.
\<close>

definition defu :: "CompatibilityConfig \<Rightarrow> CompatibilityConfig \<Rightarrow> CompatibilityConfig" where
  "defu a b =
     \<lparr>runtime = runtime b ++ runtime a,
      dev = dev b ++ dev a,
      prerender = prerender b ++ prerender a\<rparr>"

text \<open>The object literals that \<^verbatim>\<open>setup\<close> passes to \<^verbatim>\<open>defu\<close>.\<close>

definition only_runtime :: "engine \<Rightarrow> bool \<Rightarrow> CompatibilityConfig" where
  "only_runtime e r = \<lparr>runtime = [e \<mapsto> r], dev = Map.empty, prerender = Map.empty\<rparr>"

definition all_phases :: "engine \<Rightarrow> bool \<Rightarrow> bool \<Rightarrow> bool \<Rightarrow> CompatibilityConfig" where
  "all_phases e r d p = \<lparr>runtime = [e \<mapsto> r], dev = [e \<mapsto> d], prerender = [e \<mapsto> p]\<rparr>"

text \<open>
  What \<^verbatim>\<open>getPresetNitroPresetCompatibility(preset).bindings\<close> says of the two engines
  that setup asks about (the truthiness of the entry). The table itself lives in
  \<^verbatim>\<open>./compatibility\<close>; setup only reads these two entries, so they are inputs here.
\<close>

record TargetBindings =
  bindings_chromium :: bool
  bindings_sharp :: bool

section \<open>Fonts\<close>

text \<open>
  A \<^verbatim>\<open>FontConfig\<close> object, with the fields setup reads or writes. \<^verbatim>\<open>path\<close> is the local
  file, \<^verbatim>\<open>key\<close> the server-asset key; an absent field is \<open>None\<close>. A weight is kept as the
  text that template interpolation renders (setup uses a weight in no other way), so the
  number \<^verbatim>\<open>400\<close> and the string \<^verbatim>\<open>'400'\<close> are both \<open>Some ''400''\<close>. An entry of
  \<^verbatim>\<open>config.fonts\<close> is a shorthand string or such an object.
\<close>

record FontConfig =
  name :: string
  weight :: "string option"
  path :: "string option"
  key :: "string option"

datatype InputFontConfig = FontString string | FontObject FontConfig

text \<open>JavaScript truthiness of an optional string: \<^verbatim>\<open>undefined\<close> and \<^verbatim>\<open>''\<close> are falsy.\<close>

definition truthy :: "string option \<Rightarrow> bool" where
  "truthy v = (case v of None \<Rightarrow> False | Some s \<Rightarrow> s \<noteq> [])"

text \<open>\<^verbatim>\<open>s.split(c)\<close> for a one-character separator: never empty, \<^verbatim>\<open>''.split(':')\<close> is \<^verbatim>\<open>['']\<close>.\<close>

fun split_str :: "char \<Rightarrow> string \<Rightarrow> string list" where
  "split_str c [] = [[]]"
| "split_str c (x # xs) =
     (if x = c then [] # split_str c xs
      else (case split_str c xs of [] \<Rightarrow> [[x]] | p # ps \<Rightarrow> (x # p) # ps))"

text \<open>The array destructuring \<^verbatim>\<open>const [a, b] = parts\<close>: a missing element is \<^verbatim>\<open>undefined\<close>.\<close>

definition element0 :: "string list \<Rightarrow> string" where
  "element0 ps = (case ps of [] \<Rightarrow> ''undefined'' | a # _ \<Rightarrow> a)"

definition element1 :: "string list \<Rightarrow> string option" where
  "element1 ps = (case ps of a # b # _ \<Rightarrow> Some b | _ \<Rightarrow> None)"

definition startsWith :: "string \<Rightarrow> string \<Rightarrow> bool" where
  "startsWith s p = (take (length p) s = p)"

text \<open>Template interpolation \<^verbatim>\<open>${v}\<close> of an optional string.\<close>

definition interpolate :: "string option \<Rightarrow> string" where
  "interpolate v = (case v of None \<Rightarrow> ''undefined'' | Some s \<Rightarrow> s)"

section \<open>Diagnostics\<close>

datatype level = Debug | Info | Warn

text \<open>One constructor per logger call of the two setups, with the values it interpolates.\<close>

datatype message =
    ModuleDisabled
  | SsrDisabled
  | SharpNotOnPreset string
  | SharpMissingInstalling
  | SharpSupportLimited
  | ChromiumMissing
  | FontSkipped string
  | SharpRuntimeUnavailable
  | ChromiumRuntimeUnavailable
  | GoogleFontsUnavailable

type_synonym diagnostics = "(level \<times> message) list"

section \<open>Module options, environment and the Nuxt instance\<close>

text \<open>
  \<^verbatim>\<open>config.defaults\<close> (the two fields setup reads) and the module options. The two
  variants of the module share the first fields; the variant in \<^verbatim>\<open>src/module.ts\<close> has
  \<^verbatim>\<open>compatibility\<close>, the earlier one \<^verbatim>\<open>runtimeSatori\<close> and \<^verbatim>\<open>runtimeChromium\<close>.
\<close>

record OgImageOptions =
  renderer :: string
  extension :: "string option"

record ModuleOptionsBase =
  enabled :: bool
  debug :: bool
  defaults :: OgImageOptions
  fonts :: "InputFontConfig list"

record ModuleOptions = ModuleOptionsBase +
  compatibility :: CompatibilityConfig

record ModuleOptions0 = ModuleOptionsBase +
  runtimeSatori :: bool
  runtimeChromium :: bool

text \<open>
  The fields of \<^verbatim>\<open>nuxt.options\<close> that setup reads, as truth values:
  \<open>options_generate\<close> is \<^verbatim>\<open>_generate\<close>, and \<open>options_prerender\<close> is
  \<^verbatim>\<open>nitro.prerender?.routes?.length || nitro.prerender?.crawlLinks\<close>.
\<close>

record NuxtOptions =
  options_ssr :: bool
  options_dev :: bool
  options_debug :: bool
  options_generate :: bool
  options_build :: bool
  options_prerender :: bool

text \<open>
  What setup learns from outside itself: the resolved preset and its bindings, the probes
  (\<^verbatim>\<open>tryResolveModule\<close>, \<^verbatim>\<open>Launcher.getFirstInstallation\<close>, \<^verbatim>\<open>hasNuxtModule\<close>), and whether
  each awaited helper of the repository that is not among the sources resolves.
\<close>

record Environment =
  preset :: string
  targetCompatibility :: TargetBindings
  hasSharpDependency :: bool
  hasChromeLocally :: bool
  hasPlaywrightDependency :: bool
  hasNuxtContent :: bool
  ensureDependencies_resolves :: bool
  ensureChromium_resolves :: bool
  setupBuildHandler_resolves :: bool

datatype setup_error = EnsureDependenciesRejected | EnsureChromiumRejected | SetupBuildHandlerRejected

text \<open>
  Everything setup can change: the options object it is given, its logger, and what it
  registers with Nuxt, each registration recorded by the route, path or name passed.
  \<open>ensured\<close> lists what was handed to \<^verbatim>\<open>ensureDependencies\<close> and \<^verbatim>\<open>ensureChromium\<close>,
  \<open>buildHandlers\<close> the handler setups of \<^verbatim>\<open>./build\<close> that were called, in order. Setup
  returns the new state, or the error of the awaited helper that rejected.
\<close>

record 'c Nuxt =
  config :: 'c
  loggerLevel :: nat
  logged :: diagnostics
  ensured :: "string list"
  siteConfigInstalled :: bool
  componentIslands :: bool
  serverHandlers :: "string list"
  serverPlugins :: "string list"
  plugins :: "string list"
  autoImports :: "string list"
  treeShake :: "string list"
  componentsDirs :: "string list"
  components :: "string list"
  templates :: "string list"
  virtualModules :: "string list"
  typeExtensions :: "string list"
  hooks :: "string list"
  buildHandlers :: "string list"

definition emit :: "level \<Rightarrow> message \<Rightarrow> 'c Nuxt \<Rightarrow> 'c Nuxt" where
  "emit l m s = s\<lparr>logged := logged s @ [(l, m)]\<rparr>"

definition and_then :: "'e + 'a \<Rightarrow> ('a \<Rightarrow> 'e + 'b) \<Rightarrow> 'e + 'b" where
  "and_then r f = (case r of Inl e \<Rightarrow> Inl e | Inr x \<Rightarrow> f x)"

definition set_extension ::
  "string option \<Rightarrow> 'a ModuleOptionsBase_scheme \<Rightarrow> 'a ModuleOptionsBase_scheme" where
  "set_extension e c = c\<lparr>defaults := (defaults c)\<lparr>extension := e\<rparr>\<rparr>"

definition set_fonts ::
  "InputFontConfig list \<Rightarrow> 'a ModuleOptionsBase_scheme Nuxt \<Rightarrow> 'a ModuleOptionsBase_scheme Nuxt" where
  "set_fonts fs s = s\<lparr>config := (config s)\<lparr>fonts := fs\<rparr>\<rparr>"

text \<open>\<^verbatim>\<open>config.compatibility = defu(c, config.compatibility)\<close>\<close>

definition override :: "CompatibilityConfig \<Rightarrow> ModuleOptions Nuxt \<Rightarrow> ModuleOptions Nuxt" where
  "override c s = s\<lparr>config := (config s)\<lparr>compatibility := defu c (compatibility (config s))\<rparr>\<rparr>"

definition hasConfiguredJpegs :: "string option \<Rightarrow> bool" where
  "hasConfiguredJpegs e =
     (truthy e \<and> (case e of None \<Rightarrow> False | Some x \<Rightarrow> x \<in> set [''jpeg'', ''jpg'']))"

definition defaultFonts :: "InputFontConfig list" where
  "defaultFonts = [FontString ''Inter:400'', FontString ''Inter:700'']"

text \<open>
  \<^verbatim>\<open>xs.map(f).filter(Boolean)\<close> for an \<^verbatim>\<open>f\<close> that returns an object or \<^verbatim>\<open>false\<close> (here
  \<open>None\<close>) and may warn: the kept results in order, and the warnings in the order of the
  calls.
\<close>

fun map_then_filter :: "('a \<Rightarrow> 'b option \<times> diagnostics) \<Rightarrow> 'a list \<Rightarrow> 'b list \<times> diagnostics" where
  "map_then_filter f [] = ([], [])"
| "map_then_filter f (x # xs) =
     (case f x of (r, w) \<Rightarrow>
        (case map_then_filter f xs of (rs, ws) \<Rightarrow>
           ((case r of None \<Rightarrow> rs | Some y \<Rightarrow> y # rs), w @ ws)))"

section \<open>Setup, as in src/module.ts\<close>

text \<open>Lines 167 to 195: the output format and sharp.\<close>

definition setup_sharp :: "Environment \<Rightarrow> ModuleOptions Nuxt \<Rightarrow> setup_error + ModuleOptions Nuxt" where
  "setup_sharp env s0 =
     (let userConfiguredExtension = extension (defaults (config s0));
          sharpOnTarget = bindings_sharp (targetCompatibility env);
          s = s0\<lparr>config := set_extension
                 (if truthy userConfiguredExtension then userConfiguredExtension
                  else Some (if hasSharpDependency env \<and> sharpOnTarget then ''jpg'' else ''png''))
                 (config s0)\<rparr>
      in if hasConfiguredJpegs userConfiguredExtension \<and> renderer (defaults (config s)) \<noteq> ''chromium'' then
           if hasSharpDependency env \<and> \<not> sharpOnTarget then
             Inr (override (only_runtime Sharp False) (emit Warn (SharpNotOnPreset (preset env)) s))
           else if \<not> hasSharpDependency env then
             (let s1 = emit Warn SharpMissingInstalling s in
              if ensureDependencies_resolves env
              then Inr (emit Warn SharpSupportLimited (s1\<lparr>ensured := ensured s1 @ [''sharp'']\<rparr>))
              else Inl EnsureDependenciesRejected)
           else Inr s
         else if \<not> hasSharpDependency env then
           Inr (override (all_phases Sharp False False False) s)
         else Inr s)"

text \<open>Lines 197 to 228: chromium.\<close>

definition setup_chromium ::
  "Environment \<Rightarrow> NuxtOptions \<Rightarrow> ModuleOptions Nuxt \<Rightarrow> setup_error + ModuleOptions Nuxt" where
  "setup_chromium env opts s =
     (if \<not> hasChromeLocally env \<and> \<not> hasPlaywrightDependency env then
        and_then
          (if options_generate opts then
             (if ensureChromium_resolves env
              then Inr (s\<lparr>ensured := ensured s @ [''chromium'']\<rparr>)
              else Inl EnsureChromiumRejected)
           else if options_build opts then Inr (emit Info ChromiumMissing s)
           else Inr s)
          (\<lambda>s1. Inr (override (all_phases Chromium False False False) s1))
      else if hasChromeLocally env then
        Inr (override (all_phases Chromium False True True) s)
      else if hasPlaywrightDependency env \<and> bindings_chromium (targetCompatibility env) then
        Inr (override (all_phases Chromium True True True) s)
      else Inr s)"

text \<open>Lines 236 to 262: the default fonts, and the fonts of a StackBlitz target.\<close>

definition stackblitz_font :: "InputFontConfig \<Rightarrow> InputFontConfig option \<times> diagnostics" where
  "stackblitz_font f =
     (case f of
        FontString str \<Rightarrow>
          if startsWith str ''Inter:'' then
            (let w = element1 (split_str CHR '':'' str) in
             (Some (FontObject
                \<lparr>name = ''Inter'', weight = w, path = None,
                 key = Some (''nuxt-og-image:fonts:inter-latin-ext-'' @ interpolate w @ ''-normal.woff'')\<rparr>),
              []))
          else (None, [(Warn, FontSkipped str)])
      | FontObject d \<Rightarrow>
          if \<not> truthy (path d) \<and> \<not> truthy (key d)
          then (None, [(Warn, FontSkipped (name d @ '':'' @ interpolate (weight d)))])
          else (Some f, []))"

definition stackblitz_fonts :: "InputFontConfig list \<Rightarrow> InputFontConfig list \<times> diagnostics" where
  "stackblitz_fonts fs = map_then_filter stackblitz_font fs"

definition setup_fonts :: "Environment \<Rightarrow> ModuleOptions Nuxt \<Rightarrow> ModuleOptions Nuxt" where
  "setup_fonts env s =
     (let s1 = (if fonts (config s) = [] then set_fonts defaultFonts s else s)
      in if preset env = ''stackblitz'' then
           (case stackblitz_fonts (fonts (config s1)) of (fs, ws) \<Rightarrow>
              (set_fonts fs s1)\<lparr>logged := logged s1 @ ws, hooks := hooks s1 @ [''nitro:config'']\<rparr>)
         else s1)"

text \<open>
  Lines 264 to 420 (174 to 356 of the earlier variant, which differs in the name of the
  template only): what setup registers for the runtime.
\<close>

definition register_runtime ::
  "string \<Rightarrow> NuxtOptions \<Rightarrow> 'a ModuleOptionsBase_scheme Nuxt \<Rightarrow> 'a ModuleOptionsBase_scheme Nuxt" where
  "register_runtime template opts s =
     s\<lparr>componentIslands := True,
       serverHandlers := serverHandlers s @ [''/__og-image__/font/**'']
         @ (if debug (config s) \<or> options_dev opts then [''/__og-image__/debug.json''] else [])
         @ [''/__og-image__/image/**''],
       treeShake := [''defineOgImage'', ''defineOgImageComponent'', ''defineOgImageScreenshot''],
       autoImports := autoImports s
         @ [''defineOgImage'', ''defineOgImageComponent'', ''defineOgImageScreenshot''],
       componentsDirs := componentsDirs s @ [''./runtime/components/Templates/Community''],
       components := components s @ [''OgImage'', ''OgImageScreenshot''],
       plugins := plugins s
         @ [''./runtime/nuxt/plugins/route-rule-og-image.server'',
            ''./runtime/nuxt/plugins/og-image-canonical-urls.server''],
       templates := templates s @ [template],
       virtualModules := virtualModules s
         @ [''#nuxt-og-image/component-names.mjs'', ''#nuxt-og-image/unocss-config.mjs''],
       typeExtensions := typeExtensions s @ [''nuxt-og-image''],
       hooks := hooks s
         @ [''components:extend'', ''tailwindcss:config'', ''unocss:config'', ''modules:done'']\<rparr>"

text \<open>Lines 473 to 488: the handlers of the build.\<close>

definition setup_handlers ::
  "Environment \<Rightarrow> NuxtOptions \<Rightarrow> 'c Nuxt \<Rightarrow> setup_error + 'c Nuxt" where
  "setup_handlers env opts s =
     (if options_dev opts then
        Inr (s\<lparr>buildHandlers := buildHandlers s @ [''setupDevHandler'', ''setupDevToolsUI'']\<rparr>)
      else if options_generate opts then
        Inr (s\<lparr>buildHandlers := buildHandlers s @ [''setupGenerateHandler'']\<rparr>)
      else if options_build opts then
        (if setupBuildHandler_resolves env
         then Inr (s\<lparr>buildHandlers := buildHandlers s @ [''setupBuildHandler'']\<rparr>)
         else Inl SetupBuildHandlerRejected)
      else Inr s)"

definition setup_prerender :: "NuxtOptions \<Rightarrow> 'c Nuxt \<Rightarrow> 'c Nuxt" where
  "setup_prerender opts s =
     (let s1 = (if options_build opts
                then s\<lparr>serverPlugins := serverPlugins s @ [''./runtime/nitro/plugins/prerender'']\<rparr>
                else s)
      in s1\<lparr>buildHandlers := buildHandlers s1 @ [''setupPrerenderHandler'']\<rparr>)"

definition module_setup ::
  "Environment \<Rightarrow> NuxtOptions \<Rightarrow> ModuleOptions Nuxt \<Rightarrow> setup_error + ModuleOptions Nuxt" where
  "module_setup env opts s0 =
     (let s = s0\<lparr>loggerLevel := (if debug (config s0) \<or> options_debug opts then 4 else 3)\<rparr>
      in if \<not> enabled (config s) then Inr (emit Debug ModuleDisabled s)
         else if enabled (config s) \<and> \<not> options_ssr opts then Inr (emit Warn SsrDisabled s)
         else
           and_then (setup_sharp env s) (\<lambda>s1.
           and_then (setup_chromium env opts s1) (\<lambda>s2.
             (let s3 = s2\<lparr>siteConfigInstalled := True\<rparr>;
                  s4 = (if hasNuxtContent env
                        then s3\<lparr>serverPlugins := serverPlugins s3 @ [''./runtime/nitro/plugins/nuxt-content'']\<rparr>
                        else s3);
                  s5 = setup_fonts env s4;
                  s6 = register_runtime ''nuxt-og-image/components.mjs'' opts s5
              in and_then (setup_handlers env opts s6) (\<lambda>s7. Inr (setup_prerender opts s7))))))"

section \<open>Setup, as in the earlier variant of the module\<close>

text \<open>Lines 164 to 173: the output format.\<close>

definition setup_sharp0 :: "Environment \<Rightarrow> ModuleOptions0 Nuxt \<Rightarrow> ModuleOptions0 Nuxt" where
  "setup_sharp0 env s0 =
     (let userConfiguredExtension = extension (defaults (config s0));
          s = s0\<lparr>config := set_extension
                 (if truthy userConfiguredExtension then userConfiguredExtension else Some ''jpg'')
                 (config s0)\<rparr>
      in if \<not> bindings_sharp (targetCompatibility env) \<and> renderer (defaults (config s)) \<noteq> ''chromium'' then
           (let s1 = (if hasConfiguredJpegs userConfiguredExtension
                      then emit Warn SharpRuntimeUnavailable s else s)
            in s1\<lparr>config := set_extension (Some ''png'') (config s1)\<rparr>)
         else s)"

text \<open>Lines 175 to 178: the browser runtime.\<close>

definition setup_chromium0 :: "Environment \<Rightarrow> ModuleOptions0 Nuxt \<Rightarrow> ModuleOptions0 Nuxt" where
  "setup_chromium0 env s =
     (if runtimeChromium (config s) \<and> \<not> bindings_chromium (targetCompatibility env) then
        (let s1 = emit Warn ChromiumRuntimeUnavailable s
         in s1\<lparr>config := (config s1)\<lparr>runtimeChromium := False\<rparr>\<rparr>)
      else s)"

text \<open>Lines 188 to 202: the fonts. \<^verbatim>\<open>config.fonts\<close> is an array, which is truthy.\<close>

definition local_font0 :: "InputFontConfig \<Rightarrow> InputFontConfig option \<times> diagnostics" where
  "local_font0 f =
     (case f of
        FontString str \<Rightarrow> (None, [(Warn, GoogleFontsUnavailable)])
      | FontObject d \<Rightarrow>
          if \<not> truthy (path d) then (None, [(Warn, GoogleFontsUnavailable)]) else (Some f, []))"

definition setup_fonts0 :: "Environment \<Rightarrow> ModuleOptions0 Nuxt \<Rightarrow> ModuleOptions0 Nuxt" where
  "setup_fonts0 env s =
     (if preset env \<noteq> ''stackblitz'' then
        (case map_then_filter local_font0 (fonts (config s)) of (fs, ws) \<Rightarrow>
           (set_fonts fs s)\<lparr>logged := logged s @ ws\<rparr>)
      else if fonts (config s) = [] then set_fonts defaultFonts s
      else s)"

text \<open>Lines 421 to 425.\<close>

definition setup_prerender0 :: "NuxtOptions \<Rightarrow> 'c Nuxt \<Rightarrow> 'c Nuxt" where
  "setup_prerender0 opts s =
     (let s1 = (if options_prerender opts \<or> options_generate opts
                then s\<lparr>serverPlugins := serverPlugins s @ [''./runtime/nitro/plugins/prerender.ts'']\<rparr>
                else s)
      in s1\<lparr>buildHandlers := buildHandlers s1 @ [''setupPrerenderHandler'']\<rparr>)"

definition module_setup0 ::
  "Environment \<Rightarrow> NuxtOptions \<Rightarrow> ModuleOptions0 Nuxt \<Rightarrow> setup_error + ModuleOptions0 Nuxt" where
  "module_setup0 env opts s0 =
     (let s = s0\<lparr>loggerLevel := (if debug (config s0) \<or> options_debug opts then 4 else 3)\<rparr>
      in if \<not> enabled (config s) then Inr (emit Debug ModuleDisabled s)
         else if enabled (config s) \<and> \<not> options_ssr opts then Inr (emit Warn SsrDisabled s)
         else
           (let s1 = setup_sharp0 env s;
                s2 = setup_chromium0 env s1;
                s3 = s2\<lparr>siteConfigInstalled := True\<rparr>;
                s4 = (if hasNuxtContent env
                      then s3\<lparr>serverPlugins := serverPlugins s3 @ [''./runtime/nitro/plugins/nuxt-content'']\<rparr>
                      else s3);
                s5 = setup_fonts0 env s4;
                s6 = register_runtime ''og-image-component-names.mjs'' opts s5
            in and_then (setup_handlers env opts s6) (\<lambda>s7. Inr (setup_prerender0 opts s7))))"

section \<open>The \<^verbatim>\<open>modules:done\<close> hook\<close>

text \<open>
  The hook that setup registers builds the runtime configuration from the options as
  they are when all modules are done. It returns the font routes it pushes to
  \<^verbatim>\<open>nitro.prerender.routes\<close> and the runtime configuration it stores, of which the
  defaults, the debug flag, the fonts and (in the earlier variant) the two runtime flags
  are kept here.
\<close>

definition normalise_font :: "InputFontConfig \<Rightarrow> FontConfig" where
  "normalise_font f =
     (case f of
        FontString str \<Rightarrow>
          (let parts = split_str CHR '':'' str
           in \<lparr>name = element0 parts, weight = element1 parts, path = None, key = None\<rparr>)
      | FontObject d \<Rightarrow> d)"

definition normalisedFonts :: "InputFontConfig list \<Rightarrow> FontConfig list" where
  "normalisedFonts fs = map normalise_font fs"

definition font_route :: "FontConfig \<Rightarrow> string" where
  "font_route f = ''/__og-image__/font/'' @ name f @ ''/'' @ interpolate (weight f) @ ''.ttf''"

record OgImageRuntimeConfig =
  runtime_defaults :: OgImageOptions
  runtime_debug :: bool
  runtime_fonts :: "FontConfig list"

record OgImageRuntimeConfig0 = OgImageRuntimeConfig +
  runtime_runtimeSatori :: bool
  runtime_runtimeChromium :: bool

definition modules_done :: "NuxtOptions \<Rightarrow> ModuleOptions \<Rightarrow> string list \<times> OgImageRuntimeConfig" where
  "modules_done opts c =
     (let normalised = normalisedFonts (fonts c)
      in ((if \<not> options_generate opts \<and> options_build opts
           then map font_route (filter (\<lambda>f. \<not> truthy (path f) \<and> \<not> truthy (key f)) normalised)
           else []),
          \<lparr>runtime_defaults = defaults c, runtime_debug = debug c, runtime_fonts = normalised\<rparr>))"

definition modules_done0 :: "NuxtOptions \<Rightarrow> ModuleOptions0 \<Rightarrow> string list \<times> OgImageRuntimeConfig0" where
  "modules_done0 opts c =
     (let normalised = normalisedFonts (fonts c)
      in ((if \<not> options_generate opts \<and> options_build opts
           then map font_route (filter (\<lambda>f. \<not> truthy (path f)) normalised)
           else []),
          \<lparr>runtime_defaults = defaults c, runtime_debug = debug c, runtime_fonts = normalised,
           runtime_runtimeSatori = runtimeSatori c, runtime_runtimeChromium = runtimeChromium c\<rparr>))"

section \<open>The engine instances (instances.ts)\<close>

text \<open>
  The three memo cells \<^verbatim>\<open>satoriInstance\<close>, \<^verbatim>\<open>resvgInstance\<close> and \<^verbatim>\<open>sharpInstance\<close>. What
  a cell holds is the default export of the imported binding module: the engine it
  exports (named by a number) and, for satori and resvg, its \<^verbatim>\<open>initWasmPromise\<close>, which
  resolves or rejects.
\<close>

datatype cell = SatoriInstance | ResvgInstance | SharpInstance

record Binding =
  exported :: nat
  initWasm_resolves :: bool

text \<open>
  The host's module loader: \<open>h c k\<close> is what evaluation number \<open>k\<close> (counted from 0) of
  \<^verbatim>\<open>import('#nuxt-og-image/bindings/...')\<close> for cell \<open>c\<close> settles to, \<open>None\<close> when it
  rejects. The process holds the cells and counts the evaluations of \<^verbatim>\<open>import()\<close>.
\<close>

type_synonym host = "cell \<Rightarrow> nat \<Rightarrow> Binding option"

record Process =
  instances :: "cell \<Rightarrow> Binding option"
  imported :: "cell \<Rightarrow> nat"

datatype use_error = ImportRejected | InitWasmRejected | NoInstance

text \<open>
  A call of \<^verbatim>\<open>useSatori\<close>, \<^verbatim>\<open>useResvg\<close> or \<^verbatim>\<open>useSharp\<close> runs until its next
  \<^verbatim>\<open>await\<close>, where other calls may run. \<open>Called\<close>: not started; \<open>AwaitingImport k\<close>:
  suspended on the import it evaluated as number \<open>k\<close>; \<open>AwaitingInit b\<close>: suspended on
  the \<^verbatim>\<open>initWasmPromise\<close> of the binding \<open>b\<close> it read from the cell; then returned or
  thrown.
\<close>

datatype call = Called | AwaitingImport nat | AwaitingInit Binding | Returned nat | Threw use_error

text \<open>
  After the assignment to the cell: \<^verbatim>\<open>useSharp\<close> returns the cell's content,
  the other two await the \<^verbatim>\<open>initWasmPromise\<close> of the cell's content.
\<close>

definition after_assignment :: "cell \<Rightarrow> Binding \<Rightarrow> call" where
  "after_assignment c b = (if c = SharpInstance then Returned (exported b) else AwaitingInit b)"

fun resume :: "host \<Rightarrow> cell \<Rightarrow> Process \<Rightarrow> call \<Rightarrow> Process \<times> call" where
  "resume h c p Called =
     (case instances p c of
        Some b \<Rightarrow> (p, after_assignment c b)
      | None \<Rightarrow> (p\<lparr>imported := (imported p)(c := Suc (imported p c))\<rparr>, AwaitingImport (imported p c)))"
| "resume h c p (AwaitingImport k) =
     (case h c k of
        None \<Rightarrow> (p, Threw ImportRejected)
      | Some b \<Rightarrow> (p\<lparr>instances := (instances p)(c \<mapsto> b)\<rparr>, after_assignment c b))"
| "resume h c p (AwaitingInit b) =
     (if initWasm_resolves b then
        (case instances p c of
           None \<Rightarrow> (p, Threw NoInstance)
         | Some b' \<Rightarrow> (p, Returned (exported b')))
      else (p, Threw InitWasmRejected))"
| "resume h c p (Returned v) = (p, Returned v)"
| "resume h c p (Threw e) = (p, Threw e)"

text \<open>One call on its own, from start to end: it passes at most two \<^verbatim>\<open>await\<close>s.\<close>

definition use_engine :: "host \<Rightarrow> cell \<Rightarrow> Process \<Rightarrow> Process \<times> call" where
  "use_engine h c p =
     (case resume h c p Called of (p1, s1) \<Rightarrow>
        (case resume h c p1 s1 of (p2, s2) \<Rightarrow> resume h c p2 s2))"

text \<open>
  Several calls in flight: a schedule names, step by step, the call that runs next
  until its next \<^verbatim>\<open>await\<close>.
\<close>

record System =
  process :: Process
  calls :: "(cell \<times> call) list"

definition advance :: "host \<Rightarrow> nat \<Rightarrow> System \<Rightarrow> System" where
  "advance h i s =
     (if i < length (calls s) then
        (case calls s ! i of (c, st) \<Rightarrow>
           (case resume h c (process s) st of (p', st') \<Rightarrow>
              \<lparr>process = p', calls = (calls s)[i := (c, st')]\<rparr>))
      else s)"

fun run :: "host \<Rightarrow> nat list \<Rightarrow> System \<Rightarrow> System" where
  "run h [] s = s"
| "run h (i # sched) s = run h sched (advance h i s)"

section \<open>Reading the result of setup\<close>

datatype phase = Runtime | Dev | Prerender

definition flags_of :: "phase \<Rightarrow> CompatibilityConfig \<Rightarrow> flags" where
  "flags_of ph c = (case ph of Runtime \<Rightarrow> runtime c | Dev \<Rightarrow> dev c | Prerender \<Rightarrow> prerender c)"

text \<open>
  What \<^verbatim>\<open>config.compatibility\<close> says of an engine in a phase: \<open>Some True\<close> is
  reported available, \<open>Some False\<close> switched off, \<open>None\<close> left to the target's table.
\<close>

definition availability :: "phase \<Rightarrow> engine \<Rightarrow> ModuleOptions Nuxt \<Rightarrow> bool option" where
  "availability ph e s = flags_of ph (compatibility (config s)) e"

definition default_extension :: "'a ModuleOptionsBase_scheme Nuxt \<Rightarrow> string option" where
  "default_extension s = extension (defaults (config s))"

definition configured_fonts :: "'a ModuleOptionsBase_scheme Nuxt \<Rightarrow> InputFontConfig list" where
  "configured_fonts s = fonts (config s)"

definition browser_runtime :: "ModuleOptions0 Nuxt \<Rightarrow> bool" where
  "browser_runtime s = runtimeChromium (config s)"

text \<open>What the \<^verbatim>\<open>modules:done\<close> hook makes of the options that setup left.\<close>

definition rendered_fonts :: "NuxtOptions \<Rightarrow> ModuleOptions Nuxt \<Rightarrow> FontConfig list" where
  "rendered_fonts opts s = runtime_fonts (snd (modules_done opts (config s)))"

definition rendered_fonts0 :: "NuxtOptions \<Rightarrow> ModuleOptions0 Nuxt \<Rightarrow> FontConfig list" where
  "rendered_fonts0 opts s = runtime_fonts (snd (modules_done0 opts (config s)))"

definition prerendered_routes :: "NuxtOptions \<Rightarrow> ModuleOptions Nuxt \<Rightarrow> string list" where
  "prerendered_routes opts s = fst (modules_done opts (config s))"

definition debug_route :: string where
  "debug_route = ''/__og-image__/debug.json''"

section \<open>Reading a system of calls\<close>

text \<open>
  The kind and the state of call number \<open>i\<close>; whether no call of kind \<open>c\<close> is suspended
  on an import; whether no call of kind \<open>c\<close> has started; and a host whose loader
  delivers the same binding for every import of a cell, as a module map does.
\<close>

definition kind_of :: "System \<Rightarrow> nat \<Rightarrow> cell" where
  "kind_of s i = fst (calls s ! i)"

definition state_of :: "System \<Rightarrow> nat \<Rightarrow> call" where
  "state_of s i = snd (calls s ! i)"

definition awaiting_import :: "call \<Rightarrow> bool" where
  "awaiting_import st = (case st of AwaitingImport k \<Rightarrow> True | _ \<Rightarrow> False)"

definition imports_settled :: "cell \<Rightarrow> System \<Rightarrow> bool" where
  "imports_settled c s = list_all (\<lambda>x. fst x = c \<longrightarrow> \<not> awaiting_import (snd x)) (calls s)"

definition none_started :: "cell \<Rightarrow> System \<Rightarrow> bool" where
  "none_started c s = list_all (\<lambda>x. fst x = c \<longrightarrow> snd x = Called) (calls s)"

definition always_delivers :: "host \<Rightarrow> cell \<Rightarrow> Binding \<Rightarrow> bool" where
  "always_delivers h c b = (\<forall>k. h c k = Some b)"

text \<open>
  A call of kind \<open>c\<close> is coherent with the binding \<open>b\<close> when whatever it has read from
  the cell so far is \<open>b\<close>: it awaits the \<^verbatim>\<open>initWasmPromise\<close> of \<open>b\<close>, or has returned
  the engine of \<open>b\<close>, or has thrown because that promise rejected. A system is coherent
  when the cell is empty or holds \<open>b\<close> and every call of that kind is coherent. The rank
  of a call counts the \<^verbatim>\<open>await\<close>s it has passed; at rank 3 it has returned or thrown.
\<close>

definition coherent :: "cell \<Rightarrow> Binding \<Rightarrow> Process \<Rightarrow> call \<Rightarrow> bool" where
  "coherent c b p st =
     (case st of
        Called \<Rightarrow> True
      | AwaitingImport k \<Rightarrow> True
      | AwaitingInit b' \<Rightarrow> b' = b \<and> instances p c = Some b \<and> c \<noteq> SharpInstance
      | Returned v \<Rightarrow> v = exported b \<and> instances p c = Some b
      | Threw e \<Rightarrow> e = InitWasmRejected \<and> \<not> initWasm_resolves b \<and> c \<noteq> SharpInstance)"

definition all_coherent :: "cell \<Rightarrow> Binding \<Rightarrow> System \<Rightarrow> bool" where
  "all_coherent c b s \<longleftrightarrow>
     (instances (process s) c = None \<or> instances (process s) c = Some b)
     \<and> (\<forall>i < length (calls s). kind_of s i = c \<longrightarrow> coherent c b (process s) (state_of s i))"

definition rank :: "call \<Rightarrow> nat" where
  "rank st = (case st of Called \<Rightarrow> 0 | AwaitingImport k \<Rightarrow> 1 | AwaitingInit b \<Rightarrow> 2 | _ \<Rightarrow> 3)"

section \<open>Inputs used in the examples\<close>

definition fresh_nuxt :: "'c \<Rightarrow> 'c Nuxt" where
  "fresh_nuxt c =
     \<lparr>config = c, loggerLevel = 3, logged = [], ensured = [], siteConfigInstalled = False,
      componentIslands = False, serverHandlers = [], serverPlugins = [], plugins = [],
      autoImports = [], treeShake = [], componentsDirs = [], components = [], templates = [],
      virtualModules = [], typeExtensions = [], hooks = [], buildHandlers = []\<rparr>"

text \<open>The module's defaults, with the given extension and fonts; \<^verbatim>\<open>debug\<close> off.\<close>

definition default_options :: "string option \<Rightarrow> InputFontConfig list \<Rightarrow> ModuleOptions" where
  "default_options e fs =
     \<lparr>enabled = True, debug = False, defaults = \<lparr>renderer = ''satori'', extension = e\<rparr>,
      fonts = fs, compatibility = no_compatibility\<rparr>"

definition default_options0 :: "string option \<Rightarrow> InputFontConfig list \<Rightarrow> bool \<Rightarrow> ModuleOptions0" where
  "default_options0 e fs chromium =
     \<lparr>enabled = True, debug = False, defaults = \<lparr>renderer = ''satori'', extension = e\<rparr>,
      fonts = fs, runtimeSatori = True, runtimeChromium = chromium\<rparr>"

text \<open>A production build (\<^verbatim>\<open>nuxt build\<close>) with SSR, and a development server.\<close>

definition production :: NuxtOptions where
  "production =
     \<lparr>options_ssr = True, options_dev = False, options_debug = False, options_generate = False,
      options_build = True, options_prerender = False\<rparr>"

definition development :: NuxtOptions where
  "development = production\<lparr>options_dev := True\<rparr>"

text \<open>
  A target with the given name and bindings, on a machine with the given probes
  (sharp, Chrome, playwright), where every awaited helper resolves.
\<close>

definition machine :: "string \<Rightarrow> TargetBindings \<Rightarrow> bool \<Rightarrow> bool \<Rightarrow> bool \<Rightarrow> Environment" where
  "machine p t sharp chrome playwright =
     \<lparr>preset = p, targetCompatibility = t, hasSharpDependency = sharp, hasChromeLocally = chrome,
      hasPlaywrightDependency = playwright, hasNuxtContent = False,
      ensureDependencies_resolves = True, ensureChromium_resolves = True,
      setupBuildHandler_resolves = True\<rparr>"

definition edge_bindings :: TargetBindings where
  "edge_bindings = \<lparr>bindings_chromium = False, bindings_sharp = False\<rparr>"

definition node_bindings :: TargetBindings where
  "node_bindings = \<lparr>bindings_chromium = True, bindings_sharp = True\<rparr>"

text \<open>
  A process in which nothing has been imported; a binding; a host that delivers it for
  every import; a host whose first import of each cell rejects; two and three calls of
  \<^verbatim>\<open>useSatori\<close> that have not started.
\<close>

definition fresh_process :: Process where
  "fresh_process = \<lparr>instances = (\<lambda>c. None), imported = (\<lambda>c. 0)\<rparr>"

definition engine7 :: Binding where
  "engine7 = \<lparr>exported = 7, initWasm_resolves = True\<rparr>"

definition module_map :: host where
  "module_map c k = Some engine7"

definition first_import_rejects :: host where
  "first_import_rejects c k = (if k = 0 then None else Some engine7)"

definition two_calls :: System where
  "two_calls = \<lparr>process = fresh_process, calls = [(SatoriInstance, Called), (SatoriInstance, Called)]\<rparr>"

text \<open>Two calls of \<^verbatim>\<open>useSatori\<close> made after a first one has run to its end.\<close>

definition later_calls :: System where
  "later_calls =
     \<lparr>process = fst (use_engine module_map SatoriInstance fresh_process),
      calls = [(SatoriInstance, Called), (SatoriInstance, Called)]\<rparr>"

section \<open>Unfolding rules\<close>

lemmas example_systems =
  fresh_process_def engine7_def module_map_def first_import_rejects_def two_calls_def

lemmas example_inputs =
  fresh_nuxt_def default_options_def default_options0_def production_def development_def
  machine_def edge_bindings_def node_bindings_def no_compatibility_def

lemmas setup_blocks =
  module_setup_def setup_sharp_def setup_chromium_def setup_fonts_def register_runtime_def
  setup_handlers_def setup_prerender_def and_then_def emit_def override_def set_extension_def
  set_fonts_def defu_def only_runtime_def all_phases_def hasConfiguredJpegs_def truthy_def
  defaultFonts_def Let_def

lemmas setup0_blocks =
  module_setup0_def setup_sharp0_def setup_chromium0_def setup_fonts0_def register_runtime_def
  setup_handlers_def setup_prerender0_def and_then_def emit_def set_extension_def
  set_fonts_def hasConfiguredJpegs_def truthy_def defaultFonts_def Let_def

lemmas readings =
  availability_def flags_of_def default_extension_def configured_fonts_def browser_runtime_def
  debug_route_def rendered_fonts_def rendered_fonts0_def prerendered_routes_def

section \<open>The early returns\<close>

lemma module_setup_early:
  assumes "\<not> enabled (config s) \<or> \<not> options_ssr opts"
  shows "module_setup env opts s =
     Inr (s\<lparr>loggerLevel := (if debug (config s) \<or> options_debug opts then 4 else 3),
            logged := logged s @ [if \<not> enabled (config s) then (Debug, ModuleDisabled)
                                  else (Warn, SsrDisabled)]\<rparr>)"
  using assms by (auto simp: module_setup_def Let_def emit_def)

lemma module_setup0_early:
  assumes "\<not> enabled (config s) \<or> \<not> options_ssr opts"
  shows "module_setup0 env opts s =
     Inr (s\<lparr>loggerLevel := (if debug (config s) \<or> options_debug opts then 4 else 3),
            logged := logged s @ [if \<not> enabled (config s) then (Debug, ModuleDisabled)
                                  else (Warn, SsrDisabled)]\<rparr>)"
  using assms by (auto simp: module_setup0_def Let_def emit_def)

text \<open>
  C10. When the module is disabled, or enabled while SSR is off, setup of either variant
  returns at once: the Nuxt instance and the options are as they were, with no handler,
  plugin, import, component, template, hook or virtual module added. Only the module's
  own logger changes: its level is set, and one message is logged, at debug level for a
  disabled module and at warning level for SSR switched off.
\<close>

theorem disabled_setup_registers_nothing:
  "(\<not> enabled (config s) \<or> (enabled (config s) \<and> \<not> options_ssr opts) \<longrightarrow>
      module_setup env opts s =
        Inr (s\<lparr>loggerLevel := (if debug (config s) \<or> options_debug opts then 4 else 3),
               logged := logged s @ [if \<not> enabled (config s) then (Debug, ModuleDisabled)
                                     else (Warn, SsrDisabled)]\<rparr>))
   \<and> (\<not> enabled (config s0) \<or> (enabled (config s0) \<and> \<not> options_ssr opts) \<longrightarrow>
      module_setup0 env opts s0 =
        Inr (s0\<lparr>loggerLevel := (if debug (config s0) \<or> options_debug opts then 4 else 3),
                logged := logged s0 @ [if \<not> enabled (config s0) then (Debug, ModuleDisabled)
                                       else (Warn, SsrDisabled)]\<rparr>))"
  using module_setup_early [of s opts env] module_setup0_early [of s0 opts env] by blast

theorem disabled_setup_registers_nothing_witness:
  "module_setup (machine ''node-server'' node_bindings True True True)
         (production\<lparr>options_ssr := False\<rparr>)
       (fresh_nuxt ((default_options None [])\<lparr>enabled := False\<rparr>))
     = Inr ((fresh_nuxt ((default_options None [])\<lparr>enabled := False\<rparr>))
              \<lparr>logged := [(Debug, ModuleDisabled)]\<rparr>)
   \<and> module_setup0 (machine ''node-server'' node_bindings True True True)
         (production\<lparr>options_ssr := False\<rparr>) (fresh_nuxt (default_options0 None [] True))
     = Inr ((fresh_nuxt (default_options0 None [] True))\<lparr>logged := [(Warn, SsrDisabled)]\<rparr>)"
  using disabled_setup_registers_nothing
    [of "fresh_nuxt ((default_options None [])\<lparr>enabled := False\<rparr>)"
        "production\<lparr>options_ssr := False\<rparr>"
        "machine ''node-server'' node_bindings True True True"
        "fresh_nuxt (default_options0 None [] True)"]
  by (simp add: example_inputs)

section \<open>What each step of setup leaves alone\<close>

lemma setup_sharp_frame:
  assumes "setup_sharp env s = Inr s1"
  shows "serverHandlers s1 = serverHandlers s" "debug (config s1) = debug (config s)"
    "fonts (config s1) = fonts (config s)" "enabled (config s1) = enabled (config s)"
    "renderer (defaults (config s1)) = renderer (defaults (config s))"
    "set (logged s) \<subseteq> set (logged s1)"
  using assms
  by (auto simp: setup_sharp_def Let_def override_def emit_def set_extension_def split: if_splits)

lemma setup_chromium_frame:
  assumes "setup_chromium env opts s = Inr s2"
  shows "serverHandlers s2 = serverHandlers s" "debug (config s2) = debug (config s)"
    "fonts (config s2) = fonts (config s)" "defaults (config s2) = defaults (config s)"
    "set (logged s) \<subseteq> set (logged s2)"
    "availability ph Sharp s2 = availability ph Sharp s"
  using assms
  by (cases ph; auto simp: setup_chromium_def and_then_def override_def emit_def
        defu_def all_phases_def availability_def flags_of_def map_add_def
        split: if_splits option.splits)+

lemma setup_chromium_flags:
  assumes "setup_chromium env opts s = Inr s2"
  shows "availability ph Chromium s2 =
     (if \<not> hasChromeLocally env \<and> \<not> hasPlaywrightDependency env then Some False
      else if hasChromeLocally env then Some (ph \<noteq> Runtime)
      else if bindings_chromium (targetCompatibility env) then Some True
      else availability ph Chromium s)"
  using assms
  by (cases ph; auto simp: setup_chromium_def and_then_def override_def emit_def
        defu_def all_phases_def availability_def flags_of_def map_add_def
        split: if_splits option.splits)

lemma setup_fonts_frame:
  shows "serverHandlers (setup_fonts env s) = serverHandlers s"
    "debug (config (setup_fonts env s)) = debug (config s)"
    "defaults (config (setup_fonts env s)) = defaults (config s)"
    "compatibility (config (setup_fonts env s)) = compatibility (config s)"
    "set (logged s) \<subseteq> set (logged (setup_fonts env s))"
  by (auto simp: setup_fonts_def Let_def set_fonts_def split: prod.splits)

lemma setup_fonts_fonts:
  "fonts (config (setup_fonts env s)) =
     (if preset env = ''stackblitz''
      then fst (stackblitz_fonts (if fonts (config s) = [] then defaultFonts else fonts (config s)))
      else if fonts (config s) = [] then defaultFonts else fonts (config s))"
  by (auto simp: setup_fonts_def Let_def set_fonts_def split: prod.splits)

lemma setup_fonts_logged:
  "logged (setup_fonts env s) =
     logged s @ (if preset env = ''stackblitz''
      then snd (stackblitz_fonts (if fonts (config s) = [] then defaultFonts else fonts (config s)))
      else [])"
  by (auto simp: setup_fonts_def Let_def set_fonts_def split: prod.splits)

lemma register_runtime_frame:
  shows "config (register_runtime t opts s) = config s"
    "logged (register_runtime t opts s) = logged s"
    "serverHandlers (register_runtime t opts s) =
       serverHandlers s @ [''/__og-image__/font/**'']
         @ (if debug (config s) \<or> options_dev opts then [debug_route] else [])
         @ [''/__og-image__/image/**'']"
  by (auto simp: register_runtime_def debug_route_def)

lemma setup_handlers_frame:
  assumes "setup_handlers env opts s = Inr s'"
  shows "serverHandlers s' = serverHandlers s" "config s' = config s" "logged s' = logged s"
  using assms by (auto simp: setup_handlers_def split: if_splits)

lemma setup_prerender_frame:
  shows "serverHandlers (setup_prerender opts s) = serverHandlers s"
    "config (setup_prerender opts s) = config s" "logged (setup_prerender opts s) = logged s"
  by (auto simp: setup_prerender_def Let_def)

lemma module_setup_steps:
  assumes "module_setup env opts s = Inr s'" "enabled (config s)" "options_ssr opts"
  obtains s1 s2 s4 s7 where
    "setup_sharp env (s\<lparr>loggerLevel := (if debug (config s) \<or> options_debug opts then 4 else 3)\<rparr>) = Inr s1"
    "setup_chromium env opts s1 = Inr s2"
    "s4 = (if hasNuxtContent env
            then s2\<lparr>siteConfigInstalled := True, serverPlugins := serverPlugins s2 @ [''./runtime/nitro/plugins/nuxt-content'']\<rparr>
            else s2\<lparr>siteConfigInstalled := True\<rparr>)"
    "setup_handlers env opts
       (register_runtime ''nuxt-og-image/components.mjs'' opts (setup_fonts env s4)) = Inr s7"
    "s' = setup_prerender opts s7"
  using assms
  by (auto simp: module_setup_def Let_def and_then_def split: sum.splits if_splits)

lemma module_setup_result:
  assumes "module_setup env opts s = Inr s'" "enabled (config s)" "options_ssr opts"
  obtains s1 s2 where
    "setup_sharp env (s\<lparr>loggerLevel := (if debug (config s) \<or> options_debug opts then 4 else 3)\<rparr>) = Inr s1"
    "setup_chromium env opts s1 = Inr s2"
    "compatibility (config s') = compatibility (config s2)"
    "defaults (config s') = defaults (config s2)"
    "fonts (config s') = fonts (config (setup_fonts env s2))"
    "logged s' = logged (setup_fonts env s2)"
    "serverHandlers s' = serverHandlers s @ [''/__og-image__/font/**'']
         @ (if debug (config s) \<or> options_dev opts then [debug_route] else [])
         @ [''/__og-image__/image/**'']"
proof -
  from assms obtain s1 s2 s4 s7 where st:
    "setup_sharp env (s\<lparr>loggerLevel := (if debug (config s) \<or> options_debug opts then 4 else 3)\<rparr>) = Inr s1"
    "setup_chromium env opts s1 = Inr s2"
    "s4 = (if hasNuxtContent env
            then s2\<lparr>siteConfigInstalled := True, serverPlugins := serverPlugins s2 @ [''./runtime/nitro/plugins/nuxt-content'']\<rparr>
            else s2\<lparr>siteConfigInstalled := True\<rparr>)"
    "setup_handlers env opts
       (register_runtime ''nuxt-og-image/components.mjs'' opts (setup_fonts env s4)) = Inr s7"
    "s' = setup_prerender opts s7"
    by (rule module_setup_steps)
  have c4: "config s4 = config s2" "logged s4 = logged s2" "serverHandlers s4 = serverHandlers s2"
    using st(3) by auto
  have f4: "fonts (config (setup_fonts env s4)) = fonts (config (setup_fonts env s2))"
    "logged (setup_fonts env s4) = logged (setup_fonts env s2)"
    by (simp_all add: setup_fonts_fonts setup_fonts_logged c4)
  have c7: "config s' = config (setup_fonts env s4)" "logged s' = logged (setup_fonts env s4)"
    "serverHandlers s' = serverHandlers (register_runtime ''nuxt-og-image/components.mjs'' opts (setup_fonts env s4))"
    using setup_handlers_frame [OF st(4)] st(5)
    by (simp_all add: setup_prerender_frame register_runtime_frame)
  have h: "serverHandlers s2 = serverHandlers s" "debug (config s2) = debug (config s)"
    using setup_sharp_frame [OF st(1)] setup_chromium_frame [OF st(2)] by simp_all
  show ?thesis
  proof (rule that [OF st(1) st(2)])
    show "compatibility (config s') = compatibility (config s2)"
      by (simp add: c7 setup_fonts_frame c4)
    show "defaults (config s') = defaults (config s2)"
      by (simp add: c7 setup_fonts_frame c4)
    show "fonts (config s') = fonts (config (setup_fonts env s2))"
      by (simp add: c7 f4)
    show "logged s' = logged (setup_fonts env s2)"
      by (simp add: c7 f4)
    show "serverHandlers s' = serverHandlers s @ [''/__og-image__/font/**'']
         @ (if debug (config s) \<or> options_dev opts then [debug_route] else [])
         @ [''/__og-image__/image/**'']"
      by (simp add: c7 register_runtime_frame setup_fonts_frame c4 h)
  qed
qed

lemma setup_sharp0_frame:
  shows "serverHandlers (setup_sharp0 env s) = serverHandlers s"
    "debug (config (setup_sharp0 env s)) = debug (config s)"
    "fonts (config (setup_sharp0 env s)) = fonts (config s)"
    "runtimeChromium (config (setup_sharp0 env s)) = runtimeChromium (config s)"
    "set (logged s) \<subseteq> set (logged (setup_sharp0 env s))"
  by (auto simp: setup_sharp0_def Let_def emit_def set_extension_def)

lemma setup_chromium0_frame:
  shows "serverHandlers (setup_chromium0 env s) = serverHandlers s"
    "debug (config (setup_chromium0 env s)) = debug (config s)"
    "fonts (config (setup_chromium0 env s)) = fonts (config s)"
    "defaults (config (setup_chromium0 env s)) = defaults (config s)"
    "set (logged s) \<subseteq> set (logged (setup_chromium0 env s))"
    "runtimeChromium (config (setup_chromium0 env s)) =
       (runtimeChromium (config s) \<and> bindings_chromium (targetCompatibility env))"
  by (auto simp: setup_chromium0_def Let_def emit_def)

lemma setup_fonts0_frame:
  shows "serverHandlers (setup_fonts0 env s) = serverHandlers s"
    "debug (config (setup_fonts0 env s)) = debug (config s)"
    "defaults (config (setup_fonts0 env s)) = defaults (config s)"
    "runtimeChromium (config (setup_fonts0 env s)) = runtimeChromium (config s)"
    "set (logged s) \<subseteq> set (logged (setup_fonts0 env s))"
  by (auto simp: setup_fonts0_def Let_def set_fonts_def split: prod.splits)

lemma setup_fonts0_fonts:
  "fonts (config (setup_fonts0 env s)) =
     (if preset env \<noteq> ''stackblitz'' then fst (map_then_filter local_font0 (fonts (config s)))
      else if fonts (config s) = [] then defaultFonts else fonts (config s))"
  by (auto simp: setup_fonts0_def Let_def set_fonts_def split: prod.splits)

lemma setup_prerender0_frame:
  shows "serverHandlers (setup_prerender0 opts s) = serverHandlers s"
    "config (setup_prerender0 opts s) = config s" "logged (setup_prerender0 opts s) = logged s"
  by (auto simp: setup_prerender0_def Let_def)

lemma module_setup0_result:
  assumes "module_setup0 env opts s = Inr s'" "enabled (config s)" "options_ssr opts"
  obtains s1 where
    "s1 = setup_sharp0 env (s\<lparr>loggerLevel := (if debug (config s) \<or> options_debug opts then 4 else 3)\<rparr>)"
    "runtimeChromium (config s') =
       (runtimeChromium (config s) \<and> bindings_chromium (targetCompatibility env))"
    "defaults (config s') = defaults (config s1)"
    "fonts (config s') = fonts (config (setup_fonts0 env s))"
    "set (logged s1) \<subseteq> set (logged s')"
    "serverHandlers s' = serverHandlers s @ [''/__og-image__/font/**'']
         @ (if debug (config s) \<or> options_dev opts then [debug_route] else [])
         @ [''/__og-image__/image/**'']"
proof -
  define s1 where "s1 = setup_sharp0 env (s\<lparr>loggerLevel := (if debug (config s) \<or> options_debug opts then 4 else 3)\<rparr>)"
  define s2 where "s2 = setup_chromium0 env s1"
  define s4 where "s4 = (if hasNuxtContent env
            then s2\<lparr>siteConfigInstalled := True, serverPlugins := serverPlugins s2 @ [''./runtime/nitro/plugins/nuxt-content'']\<rparr>
            else s2\<lparr>siteConfigInstalled := True\<rparr>)"
  from assms obtain s7 where st:
    "setup_handlers env opts
       (register_runtime ''og-image-component-names.mjs'' opts (setup_fonts0 env s4)) = Inr s7"
    "s' = setup_prerender0 opts s7"
    unfolding s1_def s2_def s4_def
    by (auto simp: module_setup0_def Let_def and_then_def split: sum.splits if_splits)
  have c4: "config s4 = config s2" "logged s4 = logged s2" "serverHandlers s4 = serverHandlers s2"
    unfolding s4_def by auto
  have c7: "config s' = config (setup_fonts0 env s4)" "logged s' = logged (setup_fonts0 env s4)"
    "serverHandlers s' = serverHandlers (register_runtime ''og-image-component-names.mjs'' opts (setup_fonts0 env s4))"
    using setup_handlers_frame [OF st(1)] st(2)
    by (simp_all add: setup_prerender0_frame register_runtime_frame)
  have h: "serverHandlers s2 = serverHandlers s" "debug (config s2) = debug (config s)"
    "fonts (config s2) = fonts (config s)"
    "runtimeChromium (config s2) = (runtimeChromium (config s) \<and> bindings_chromium (targetCompatibility env))"
    "defaults (config s2) = defaults (config s1)"
    unfolding s2_def s1_def by (simp_all add: setup_sharp0_frame setup_chromium0_frame)
  have l: "set (logged s1) \<subseteq> set (logged s')"
    using setup_chromium0_frame(5) [of s1 env] setup_fonts0_frame(5) [of s4 env]
    by (simp add: c7 c4 s2_def [symmetric])
  show ?thesis
  proof (rule that [OF s1_def])
    show "runtimeChromium (config s') =
       (runtimeChromium (config s) \<and> bindings_chromium (targetCompatibility env))"
      by (simp add: c7 setup_fonts0_frame c4 h)
    show "defaults (config s') = defaults (config s1)"
      by (simp add: c7 setup_fonts0_frame c4 h)
    show "fonts (config s') = fonts (config (setup_fonts0 env s))"
      by (simp add: c7 setup_fonts0_fonts c4 h)
    show "set (logged s1) \<subseteq> set (logged s')" by (rule l)
    show "serverHandlers s' = serverHandlers s @ [''/__og-image__/font/**'']
         @ (if debug (config s) \<or> options_dev opts then [debug_route] else [])
         @ [''/__og-image__/image/**'']"
      by (simp add: c7 register_runtime_frame setup_fonts0_frame c4 h)
  qed
qed


lemma setup_sharp_others:
  assumes "setup_sharp env s = Inr s1" "e \<noteq> Sharp"
  shows "availability ph e s1 = availability ph e s"
  using assms
  by (cases ph; auto simp: setup_sharp_def Let_def override_def emit_def set_extension_def
        defu_def only_runtime_def all_phases_def availability_def flags_of_def map_add_def
        split: if_splits option.splits)

lemma setup_sharp_never_enables:
  assumes "setup_sharp env s = Inr s1" "availability ph Sharp s1 = Some True"
  shows "availability ph Sharp s = Some True"
  using assms
  by (cases ph; auto simp: setup_sharp_def Let_def override_def emit_def set_extension_def
        defu_def only_runtime_def all_phases_def availability_def flags_of_def map_add_def
        split: if_splits option.splits)

lemma setup_chromium_others:
  assumes "setup_chromium env opts s = Inr s2" "e \<noteq> Chromium"
  shows "availability ph e s2 = availability ph e s"
  using assms
  by (cases ph; auto simp: setup_chromium_def and_then_def override_def emit_def
        defu_def all_phases_def availability_def flags_of_def map_add_def
        split: if_splits option.splits)

lemma availability_loggerLevel [simp]:
  "availability ph e (s\<lparr>loggerLevel := l\<rparr>) = availability ph e s"
  by (simp add: availability_def)

lemma availability_cong:
  "compatibility (config s) = compatibility (config t) \<Longrightarrow> availability ph e s = availability ph e t"
  by (simp add: availability_def)

lemma module_setup_flags:
  assumes "module_setup env opts s = Inr s'"
  shows "e \<noteq> Chromium \<Longrightarrow> availability ph e s' = Some True \<Longrightarrow> availability ph e s = Some True"
    and "availability ph Chromium s' = Some True \<Longrightarrow>
         bindings_chromium (targetCompatibility env) \<or> availability ph Chromium s = Some True
         \<or> (ph \<noteq> Runtime \<and> hasChromeLocally env)"
    and "enabled (config s) \<Longrightarrow> options_ssr opts \<Longrightarrow> hasChromeLocally env \<Longrightarrow>
         availability ph Chromium s' = Some (ph \<noteq> Runtime)"
proof -
  show "availability ph e s = Some True" if e: "e \<noteq> Chromium" "availability ph e s' = Some True"
  proof (cases "enabled (config s) \<and> options_ssr opts")
    case True
    with assms obtain s1 s2 where st:
      "setup_sharp env (s\<lparr>loggerLevel := (if debug (config s) \<or> options_debug opts then 4 else 3)\<rparr>) = Inr s1"
      "setup_chromium env opts s1 = Inr s2"
      "compatibility (config s') = compatibility (config s2)"
      by (auto elim: module_setup_result)
    have "availability ph e s1 = Some True"
      using e setup_chromium_others [OF st(2) e(1)] availability_cong [OF st(3)] by simp
    then show ?thesis
      using setup_sharp_never_enables [OF st(1)] setup_sharp_others [OF st(1)]
      by (cases "e = Sharp") auto
  next
    case False
    with assms e show ?thesis
      using module_setup_early [of s opts env] by (auto simp: availability_def)
  qed
  show "bindings_chromium (targetCompatibility env) \<or> availability ph Chromium s = Some True
         \<or> (ph \<noteq> Runtime \<and> hasChromeLocally env)" if e: "availability ph Chromium s' = Some True"
  proof (cases "enabled (config s) \<and> options_ssr opts")
    case True
    with assms obtain s1 s2 where st:
      "setup_sharp env (s\<lparr>loggerLevel := (if debug (config s) \<or> options_debug opts then 4 else 3)\<rparr>) = Inr s1"
      "setup_chromium env opts s1 = Inr s2"
      "compatibility (config s') = compatibility (config s2)"
      by (auto elim: module_setup_result)
    have "availability ph Chromium s2 = Some True"
      using e availability_cong [OF st(3)] by simp
    then show ?thesis
      using setup_chromium_flags [OF st(2), of ph] setup_sharp_others [OF st(1), of Chromium ph]
      by (auto split: if_splits)
  next
    case False
    with assms e show ?thesis
      using module_setup_early [of s opts env] by (auto simp: availability_def)
  qed
  show "availability ph Chromium s' = Some (ph \<noteq> Runtime)"
    if e: "enabled (config s)" "options_ssr opts" "hasChromeLocally env"
  proof -
    from assms e obtain s1 s2 where st:
      "setup_sharp env (s\<lparr>loggerLevel := (if debug (config s) \<or> options_debug opts then 4 else 3)\<rparr>) = Inr s1"
      "setup_chromium env opts s1 = Inr s2"
      "compatibility (config s') = compatibility (config s2)"
      by (auto elim: module_setup_result)
    show ?thesis
      using setup_chromium_flags [OF st(2), of ph] availability_cong [OF st(3)] e by simp
  qed
qed

lemma module_setup0_browser:
  assumes "module_setup0 env opts s = Inr s'" "browser_runtime s'"
  shows "browser_runtime s \<and> (enabled (config s) \<and> options_ssr opts \<longrightarrow> bindings_chromium (targetCompatibility env))"
proof (cases "enabled (config s) \<and> options_ssr opts")
  case True
  with assms(1) obtain s1 where "runtimeChromium (config s') =
       (runtimeChromium (config s) \<and> bindings_chromium (targetCompatibility env))"
    by (auto elim: module_setup0_result)
  with assms(2) show ?thesis by (simp add: browser_runtime_def)
next
  case False
  with assms show ?thesis
    using module_setup0_early [of s opts env] by (auto simp: browser_runtime_def)
qed


section \<open>The diagnostics endpoint\<close>

text \<open>
  C8, as the code has it. The handler of \<^verbatim>\<open>/__og-image__/debug.json\<close> is registered by
  setup (of either variant) exactly when setup does not return early and the debug flag is
  set or Nuxt runs in development mode: \<^verbatim>\<open>if (config.debug || nuxt.options.dev)\<close>.
\<close>

theorem debug_handler_registered_iff:
  "(module_setup env opts s = Inr s' \<longrightarrow> debug_route \<notin> set (serverHandlers s) \<longrightarrow>
      (debug_route \<in> set (serverHandlers s') \<longleftrightarrow>
         enabled (config s) \<and> options_ssr opts \<and> (debug (config s) \<or> options_dev opts)))
   \<and> (module_setup0 env opts s0 = Inr s0' \<longrightarrow> debug_route \<notin> set (serverHandlers s0) \<longrightarrow>
      (debug_route \<in> set (serverHandlers s0') \<longleftrightarrow>
         enabled (config s0) \<and> options_ssr opts \<and> (debug (config s0) \<or> options_dev opts)))"
proof (intro conjI impI)
  assume a: "module_setup env opts s = Inr s'" "debug_route \<notin> set (serverHandlers s)"
  show "debug_route \<in> set (serverHandlers s') \<longleftrightarrow>
         enabled (config s) \<and> options_ssr opts \<and> (debug (config s) \<or> options_dev opts)"
  proof (cases "enabled (config s) \<and> options_ssr opts")
    case True
    with a(1) obtain s1 s2 where "serverHandlers s' = serverHandlers s @ [''/__og-image__/font/**'']
         @ (if debug (config s) \<or> options_dev opts then [debug_route] else [])
         @ [''/__og-image__/image/**'']"
      by (auto elim: module_setup_result)
    with a(2) True show ?thesis by (auto simp: debug_route_def)
  next
    case False
    with a show ?thesis using module_setup_early [of s opts env] by auto
  qed
next
  assume a: "module_setup0 env opts s0 = Inr s0'" "debug_route \<notin> set (serverHandlers s0)"
  show "debug_route \<in> set (serverHandlers s0') \<longleftrightarrow>
         enabled (config s0) \<and> options_ssr opts \<and> (debug (config s0) \<or> options_dev opts)"
  proof (cases "enabled (config s0) \<and> options_ssr opts")
    case True
    with a(1) obtain s1 where "serverHandlers s0' = serverHandlers s0 @ [''/__og-image__/font/**'']
         @ (if debug (config s0) \<or> options_dev opts then [debug_route] else [])
         @ [''/__og-image__/image/**'']"
      by (auto elim: module_setup0_result)
    with a(2) True show ?thesis by (auto simp: debug_route_def)
  next
    case False
    with a show ?thesis using module_setup0_early [of s0 opts env] by auto
  qed
qed

theorem debug_handler_registered_iff_witness:
  "module_setup (machine ''node-server'' node_bindings True True True) development
       (fresh_nuxt (default_options None []))
     = Inr (projr (module_setup (machine ''node-server'' node_bindings True True True) development
                     (fresh_nuxt (default_options None []))))
   \<and> debug_route \<in> set (serverHandlers
         (projr (module_setup (machine ''node-server'' node_bindings True True True) development
                   (fresh_nuxt (default_options None [])))))
   \<and> module_setup0 (machine ''node-server'' node_bindings True True True) development
       (fresh_nuxt ((default_options0 None [] True)\<lparr>debug := True\<rparr>))
     = Inr (projr (module_setup0 (machine ''node-server'' node_bindings True True True) development
                     (fresh_nuxt ((default_options0 None [] True)\<lparr>debug := True\<rparr>))))
   \<and> debug_route \<in> set (serverHandlers
         (projr (module_setup0 (machine ''node-server'' node_bindings True True True) development
                   (fresh_nuxt ((default_options0 None [] True)\<lparr>debug := True\<rparr>)))))"
  using debug_handler_registered_iff
    [of "machine ''node-server'' node_bindings True True True" development
        "fresh_nuxt (default_options None [])"
        "projr (module_setup (machine ''node-server'' node_bindings True True True) development
                  (fresh_nuxt (default_options None [])))"
        "fresh_nuxt ((default_options0 None [] True)\<lparr>debug := True\<rparr>)"
        "projr (module_setup0 (machine ''node-server'' node_bindings True True True) development
                  (fresh_nuxt ((default_options0 None [] True)\<lparr>debug := True\<rparr>)))"]
  by (simp add: example_inputs setup_blocks setup0_blocks debug_route_def)

text \<open>
  C8 as stated fails: with the debug flag off, a development server still gets the
  handler.
\<close>

theorem debug_handler_without_debug_flag:
  "\<not> debug (default_options None [])
   \<and> map_sum id serverHandlers
       (module_setup (machine ''node-server'' node_bindings True True True) development
          (fresh_nuxt (default_options None [])))
     = Inr [''/__og-image__/font/**'', debug_route, ''/__og-image__/image/**'']"
  by (simp add: example_inputs setup_blocks debug_route_def)

section \<open>Which engines setup reports available\<close>

text \<open>
  C1, as the code has it. In \<^verbatim>\<open>src/module.ts\<close>, setup never switches on an engine other
  than chromium: such an engine is reported available after setup only where the options
  given to setup already said so. Chromium is reported available in a phase only if the
  target's table has it, or the options given to setup already said so, or, in the dev
  and prerender phases, Chrome is installed locally: with a local Chrome, setup reports
  chromium available for dev and prerender and unavailable at runtime, whatever the table
  says. In the earlier variant the browser runtime is only ever switched off: it is on
  after setup only if it was on before and the table has chromium.
\<close>

theorem probes_enable_only_local_chromium:
  "(module_setup env opts s = Inr s' \<longrightarrow>
      (e \<noteq> Chromium \<longrightarrow> availability ph e s' = Some True \<longrightarrow> availability ph e s = Some True)
    \<and> (availability ph Chromium s' = Some True \<longrightarrow>
         bindings_chromium (targetCompatibility env) \<or> availability ph Chromium s = Some True
         \<or> (ph \<noteq> Runtime \<and> hasChromeLocally env))
    \<and> (enabled (config s) \<and> options_ssr opts \<and> hasChromeLocally env \<longrightarrow>
         availability ph Chromium s' = Some (ph \<noteq> Runtime)))
   \<and> (module_setup0 env opts s0 = Inr s0' \<longrightarrow> browser_runtime s0' \<longrightarrow>
        browser_runtime s0 \<and>
        (enabled (config s0) \<and> options_ssr opts \<longrightarrow> bindings_chromium (targetCompatibility env)))"
proof -
  have 1: "availability ph e s = Some True"
    if "module_setup env opts s = Inr s'" "e \<noteq> Chromium" "availability ph e s' = Some True"
    using that by (rule module_setup_flags(1))
  have 2: "bindings_chromium (targetCompatibility env) \<or> availability ph Chromium s = Some True
         \<or> (ph \<noteq> Runtime \<and> hasChromeLocally env)"
    if "module_setup env opts s = Inr s'" "availability ph Chromium s' = Some True"
    using that by (rule module_setup_flags(2))
  have 3: "availability ph Chromium s' = Some (ph \<noteq> Runtime)"
    if "module_setup env opts s = Inr s'" "enabled (config s)" "options_ssr opts" "hasChromeLocally env"
    using that by (rule module_setup_flags(3))
  have 4: "browser_runtime s0 \<and>
        (enabled (config s0) \<and> options_ssr opts \<longrightarrow> bindings_chromium (targetCompatibility env))"
    if "module_setup0 env opts s0 = Inr s0'" "browser_runtime s0'"
    using that by (rule module_setup0_browser)
  show ?thesis using 1 2 3 4 by blast
qed

theorem probes_enable_only_local_chromium_witness:
  "module_setup (machine ''node-server'' node_bindings True True False) production
       (fresh_nuxt ((default_options None [])\<lparr>compatibility := all_phases Sharp True True True\<rparr>))
     = Inr (projr (module_setup (machine ''node-server'' node_bindings True True False) production
         (fresh_nuxt ((default_options None [])\<lparr>compatibility := all_phases Sharp True True True\<rparr>))))
   \<and> availability Dev Sharp
        (projr (module_setup (machine ''node-server'' node_bindings True True False) production
         (fresh_nuxt ((default_options None [])\<lparr>compatibility := all_phases Sharp True True True\<rparr>))))
       = Some True
   \<and> availability Dev Chromium
        (projr (module_setup (machine ''node-server'' node_bindings True True False) production
         (fresh_nuxt ((default_options None [])\<lparr>compatibility := all_phases Sharp True True True\<rparr>))))
       = Some True
   \<and> module_setup0 (machine ''node-server'' node_bindings True True False) production
       (fresh_nuxt (default_options0 None [] True))
     = Inr (projr (module_setup0 (machine ''node-server'' node_bindings True True False) production
         (fresh_nuxt (default_options0 None [] True))))
   \<and> browser_runtime
        (projr (module_setup0 (machine ''node-server'' node_bindings True True False) production
         (fresh_nuxt (default_options0 None [] True))))
   \<and> bindings_chromium (targetCompatibility (machine ''node-server'' node_bindings True True False))"
  using probes_enable_only_local_chromium
    [of "machine ''node-server'' node_bindings True True False" production
        "fresh_nuxt ((default_options None [])\<lparr>compatibility := all_phases Sharp True True True\<rparr>)"
        "projr (module_setup (machine ''node-server'' node_bindings True True False) production
         (fresh_nuxt ((default_options None [])\<lparr>compatibility := all_phases Sharp True True True\<rparr>)))"
        Sharp Dev
        "fresh_nuxt (default_options0 None [] True)"
        "projr (module_setup0 (machine ''node-server'' node_bindings True True False) production
         (fresh_nuxt (default_options0 None [] True)))"]
  by (simp add: example_inputs setup_blocks setup0_blocks readings)

text \<open>
  C1 as stated fails: on a target whose table has no chromium, a local Chrome makes setup
  report chromium available in the dev phase.
\<close>

theorem local_chrome_enables_chromium_off_table:
  "\<not> bindings_chromium edge_bindings
   \<and> map_sum id (availability Dev Chromium)
       (module_setup (machine ''cloudflare'' edge_bindings True True False) production
          (fresh_nuxt (default_options None []))) = Inr (Some True)"
  by (simp add: example_inputs setup_blocks readings)

section \<open>The two variants disagree on chromium\<close>

text \<open>
  C9. There are inputs on which the two variants compute different chromium flags. On a
  target whose table has chromium, with Chrome installed locally and the user opting in
  to the browser at runtime in both, the earlier variant keeps the browser runtime on and
  \<^verbatim>\<open>src/module.ts\<close> switches chromium off at runtime. On the same target without a local
  Chrome but with playwright, and no opt-in, the earlier variant leaves the browser
  runtime off and \<^verbatim>\<open>src/module.ts\<close> reports chromium available at runtime.
\<close>

theorem variants_disagree_on_chromium:
  "(\<exists>env opts c c0 s' s0'.
      module_setup env opts (fresh_nuxt c) = Inr s' \<and> module_setup0 env opts (fresh_nuxt c0) = Inr s0'
      \<and> bindings_chromium (targetCompatibility env) \<and> hasChromeLocally env
      \<and> runtimeChromium c0 \<and> runtime (compatibility c) Chromium = Some True
      \<and> browser_runtime s0' \<and> availability Runtime Chromium s' = Some False)
   \<and> (\<exists>env opts c c0 s' s0'.
      module_setup env opts (fresh_nuxt c) = Inr s' \<and> module_setup0 env opts (fresh_nuxt c0) = Inr s0'
      \<and> bindings_chromium (targetCompatibility env) \<and> \<not> hasChromeLocally env \<and> hasPlaywrightDependency env
      \<and> \<not> runtimeChromium c0 \<and> compatibility c = no_compatibility
      \<and> \<not> browser_runtime s0' \<and> availability Runtime Chromium s' = Some True)"
proof (intro conjI)
  let ?E = "machine ''node-server'' node_bindings True True False"
  let ?c = "(default_options None [])\<lparr>compatibility := only_runtime Chromium True\<rparr>"
  let ?d = "default_options0 None [] True"
  have "module_setup ?E production (fresh_nuxt ?c) = Inr (projr (module_setup ?E production (fresh_nuxt ?c)))"
    by (simp add: example_inputs setup_blocks)
  moreover have "module_setup0 ?E production (fresh_nuxt ?d) = Inr (projr (module_setup0 ?E production (fresh_nuxt ?d)))"
    by (simp add: example_inputs setup0_blocks)
  moreover have "bindings_chromium (targetCompatibility ?E) \<and> hasChromeLocally ?E
      \<and> runtimeChromium ?d \<and> runtime (compatibility ?c) Chromium = Some True"
    by (simp add: example_inputs only_runtime_def)
  moreover have "browser_runtime (projr (module_setup0 ?E production (fresh_nuxt ?d)))"
    by (simp add: example_inputs setup0_blocks readings)
  moreover have "availability Runtime Chromium (projr (module_setup ?E production (fresh_nuxt ?c))) = Some False"
    by (simp add: example_inputs setup_blocks readings)
  ultimately show "\<exists>env opts c c0 s' s0'.
      module_setup env opts (fresh_nuxt c) = Inr s' \<and> module_setup0 env opts (fresh_nuxt c0) = Inr s0'
      \<and> bindings_chromium (targetCompatibility env) \<and> hasChromeLocally env
      \<and> runtimeChromium c0 \<and> runtime (compatibility c) Chromium = Some True
      \<and> browser_runtime s0' \<and> availability Runtime Chromium s' = Some False"
    by blast
next
  let ?E = "machine ''node-server'' node_bindings True False True"
  let ?c = "default_options None []"
  let ?d = "default_options0 None [] False"
  have "module_setup ?E production (fresh_nuxt ?c) = Inr (projr (module_setup ?E production (fresh_nuxt ?c)))"
    by (simp add: example_inputs setup_blocks)
  moreover have "module_setup0 ?E production (fresh_nuxt ?d) = Inr (projr (module_setup0 ?E production (fresh_nuxt ?d)))"
    by (simp add: example_inputs setup0_blocks)
  moreover have "bindings_chromium (targetCompatibility ?E) \<and> \<not> hasChromeLocally ?E \<and> hasPlaywrightDependency ?E
      \<and> \<not> runtimeChromium ?d \<and> compatibility ?c = no_compatibility"
    by (simp add: example_inputs)
  moreover have "\<not> browser_runtime (projr (module_setup0 ?E production (fresh_nuxt ?d)))"
    by (simp add: example_inputs setup0_blocks readings)
  moreover have "availability Runtime Chromium (projr (module_setup ?E production (fresh_nuxt ?c))) = Some True"
    by (simp add: example_inputs setup_blocks readings)
  ultimately show "\<exists>env opts c c0 s' s0'.
      module_setup env opts (fresh_nuxt c) = Inr s' \<and> module_setup0 env opts (fresh_nuxt c0) = Inr s0'
      \<and> bindings_chromium (targetCompatibility env) \<and> \<not> hasChromeLocally env \<and> hasPlaywrightDependency env
      \<and> \<not> runtimeChromium c0 \<and> compatibility c = no_compatibility
      \<and> \<not> browser_runtime s0' \<and> availability Runtime Chromium s' = Some True"
    by blast
qed

section \<open>A configured JPEG format on a target without sharp\<close>











section \<open>Facts about the fonts\<close>




lemma split_str_nonempty: "split_str c s \<noteq> []"
  by (induction s) (auto split: list.splits)

lemma split_str_no_separator: "c \<notin> set s \<Longrightarrow> split_str c s = [s]"
  by (induction s) auto

lemma split_str_once:
  "c \<notin> set n \<Longrightarrow> c \<notin> set w \<Longrightarrow> split_str c (n @ c # w) = [n, w]"
  by (induction n) (auto simp: split_str_no_separator)

lemma normalise_shorthand:
  assumes "CHR '':'' \<notin> set n" "CHR '':'' \<notin> set w"
  shows "normalise_font (FontString (n @ '':'' @ w)) = \<lparr>name = n, weight = Some w, path = None, key = None\<rparr>"
  using split_str_once [OF assms]
  by (simp add: normalise_font_def element0_def element1_def)

lemma module_setup_fonts:
  assumes "module_setup env opts s = Inr s'" "enabled (config s)" "options_ssr opts"
  shows "configured_fonts s' =
     (if preset env = ''stackblitz''
      then fst (stackblitz_fonts (if configured_fonts s = [] then defaultFonts else configured_fonts s))
      else if configured_fonts s = [] then defaultFonts else configured_fonts s)"
    and "preset env = ''stackblitz'' \<Longrightarrow>
      set (snd (stackblitz_fonts (if configured_fonts s = [] then defaultFonts else configured_fonts s)))
        \<subseteq> set (logged s')"
proof -
  from assms obtain s1 s2 where st:
    "setup_sharp env (s\<lparr>loggerLevel := (if debug (config s) \<or> options_debug opts then 4 else 3)\<rparr>) = Inr s1"
    "setup_chromium env opts s1 = Inr s2"
    "fonts (config s') = fonts (config (setup_fonts env s2))"
    "logged s' = logged (setup_fonts env s2)"
    by (auto elim: module_setup_result)
  have f: "fonts (config s2) = fonts (config s)"
    using setup_sharp_frame(3) [OF st(1)] setup_chromium_frame(3) [OF st(2)] by simp
  show "configured_fonts s' =
     (if preset env = ''stackblitz''
      then fst (stackblitz_fonts (if configured_fonts s = [] then defaultFonts else configured_fonts s))
      else if configured_fonts s = [] then defaultFonts else configured_fonts s)"
    by (simp add: configured_fonts_def st(3) setup_fonts_fonts f)
  show "set (snd (stackblitz_fonts (if configured_fonts s = [] then defaultFonts else configured_fonts s)))
        \<subseteq> set (logged s')" if "preset env = ''stackblitz''"
    using that by (simp add: configured_fonts_def st(4) setup_fonts_logged f)
qed

lemma stackblitz_default: "fst (stackblitz_fonts defaultFonts) =
   [FontObject \<lparr>name = ''Inter'', weight = Some ''400'', path = None,
              key = Some ''nuxt-og-image:fonts:inter-latin-ext-400-normal.woff''\<rparr>,
    FontObject \<lparr>name = ''Inter'', weight = Some ''700'', path = None,
              key = Some ''nuxt-og-image:fonts:inter-latin-ext-700-normal.woff''\<rparr>]"
  by (simp add: stackblitz_fonts_def defaultFonts_def stackblitz_font_def startsWith_def
        element1_def interpolate_def)




text \<open>
  C6, in the earlier variant, at a preset other than \<^verbatim>\<open>stackblitz\<close> with no fonts
  configured: the branch \<^verbatim>\<open>preset !== 'stackblitz'\<close> is taken, the default fonts are not
  injected, and the font list that the \<^verbatim>\<open>modules:done\<close> hook hands to the runtime is
  empty.
\<close>

theorem earlier_variant_leaves_fonts_empty:
  "map_sum id configured_fonts
       (module_setup0 (machine ''node-server'' node_bindings True True False) production
          (fresh_nuxt (default_options0 None [] False))) = Inr []
   \<and> map_sum id (rendered_fonts0 production)
       (module_setup0 (machine ''node-server'' node_bindings True True False) production
          (fresh_nuxt (default_options0 None [] False))) = Inr []"
  by (simp add: example_inputs setup0_blocks readings modules_done0_def normalisedFonts_def)

text \<open>
  \<^verbatim>\<open>src/module.ts\<close> does inject the defaults: when no fonts are configured and setup does
  not return early, the configured fonts after setup are \<^verbatim>\<open>Inter:400\<close> and \<^verbatim>\<open>Inter:700\<close>
  (on StackBlitz, their bundled descriptors), and the runtime gets two fonts.
\<close>

theorem default_fonts_injected:
  "module_setup env opts s = Inr s' \<and> enabled (config s) \<and> options_ssr opts
     \<and> configured_fonts s = [] \<longrightarrow>
   configured_fonts s' =
     (if preset env = ''stackblitz'' then fst (stackblitz_fonts defaultFonts) else defaultFonts)
   \<and> length (rendered_fonts opts s') = 2"
proof (intro impI)
  assume a: "module_setup env opts s = Inr s' \<and> enabled (config s) \<and> options_ssr opts
     \<and> configured_fonts s = []"
  have fs: "configured_fonts s' =
     (if preset env = ''stackblitz'' then fst (stackblitz_fonts defaultFonts) else defaultFonts)"
    using module_setup_fonts(1) [of env opts s s'] a by simp
  moreover have "length (fst (stackblitz_fonts defaultFonts)) = 2" "length defaultFonts = 2"
    by (simp_all add: stackblitz_default) (simp add: defaultFonts_def)
  then have "length (rendered_fonts opts s') = 2"
    using fs
    by (auto simp: rendered_fonts_def modules_done_def normalisedFonts_def configured_fonts_def
          Let_def)
  ultimately show "configured_fonts s' =
     (if preset env = ''stackblitz'' then fst (stackblitz_fonts defaultFonts) else defaultFonts)
   \<and> length (rendered_fonts opts s') = 2" by simp
qed

theorem default_fonts_injected_witness:
  "module_setup (machine ''node-server'' node_bindings True True False) production
       (fresh_nuxt (default_options None []))
     = Inr (projr (module_setup (machine ''node-server'' node_bindings True True False) production
          (fresh_nuxt (default_options None []))))
   \<and> configured_fonts
        (projr (module_setup (machine ''node-server'' node_bindings True True False) production
          (fresh_nuxt (default_options None []))))
     = [FontString ''Inter:400'', FontString ''Inter:700'']
   \<and> length (rendered_fonts production
        (projr (module_setup (machine ''node-server'' node_bindings True True False) production
          (fresh_nuxt (default_options None []))))) = 2"
  using default_fonts_injected
    [of "machine ''node-server'' node_bindings True True False" production
        "fresh_nuxt (default_options None [])"
        "projr (module_setup (machine ''node-server'' node_bindings True True False) production
          (fresh_nuxt (default_options None [])))"]
  by (simp add: example_inputs setup_blocks readings)

text \<open>
  C7, as the code has it. \<^verbatim>\<open>normalisedFonts\<close> turns a shorthand \<^verbatim>\<open>Name:weight\<close> (neither
  part containing a colon) into the descriptor with that name and weight and with neither
  a path nor a key. On a preset other than \<^verbatim>\<open>stackblitz\<close>, setup of \<^verbatim>\<open>src/module.ts\<close>
  leaves the shorthand in place, so the runtime gets this descriptor; in a build that is
  not \<^verbatim>\<open>nuxt generate\<close> the hook also queues the font route
  \<^verbatim>\<open>/__og-image__/font/Name/weight.ttf\<close> for prerendering, which is how a font without
  path and key is fetched.
\<close>

theorem shorthand_normalised:
  "CHR '':'' \<notin> set n \<and> CHR '':'' \<notin> set w \<longrightarrow>
     normalise_font (FontString (n @ '':'' @ w))
       = \<lparr>name = n, weight = Some w, path = None, key = None\<rparr>
   \<and> (module_setup env opts s = Inr s' \<and> enabled (config s) \<and> options_ssr opts
        \<and> preset env \<noteq> ''stackblitz'' \<and> FontString (n @ '':'' @ w) \<in> set (configured_fonts s) \<longrightarrow>
          \<lparr>name = n, weight = Some w, path = None, key = None\<rparr> \<in> set (rendered_fonts opts s')
        \<and> (options_build opts \<and> \<not> options_generate opts \<longrightarrow>
             ''/__og-image__/font/'' @ n @ ''/'' @ w @ ''.ttf'' \<in> set (prerendered_routes opts s')))"
proof (intro impI conjI)
  assume c: "CHR '':'' \<notin> set n \<and> CHR '':'' \<notin> set w"
  then show n: "normalise_font (FontString (n @ '':'' @ w))
       = \<lparr>name = n, weight = Some w, path = None, key = None\<rparr>"
    using normalise_shorthand [of n w] by blast
  assume a: "module_setup env opts s = Inr s' \<and> enabled (config s) \<and> options_ssr opts
        \<and> preset env \<noteq> ''stackblitz'' \<and> FontString (n @ '':'' @ w) \<in> set (configured_fonts s)"
  then have "configured_fonts s' = configured_fonts s"
    using module_setup_fonts(1) [of env opts s s'] by auto
  with a have m: "FontString (n @ '':'' @ w) \<in> set (fonts (config s'))"
    by (simp add: configured_fonts_def)
  then have "normalise_font (FontString (n @ '':'' @ w)) \<in> normalise_font ` set (fonts (config s'))"
    by (rule imageI)
  then have r: "\<lparr>name = n, weight = Some w, path = None, key = None\<rparr> \<in> set (normalisedFonts (fonts (config s')))"
    unfolding n by (simp add: normalisedFonts_def)
  then show "\<lparr>name = n, weight = Some w, path = None, key = None\<rparr> \<in> set (rendered_fonts opts s')"
    by (simp add: rendered_fonts_def modules_done_def Let_def)
  assume b: "options_build opts \<and> \<not> options_generate opts"
  have "font_route \<lparr>name = n, weight = Some w, path = None, key = None\<rparr>
      \<in> font_route ` {f \<in> set (normalisedFonts (fonts (config s'))). \<not> truthy (path f) \<and> \<not> truthy (key f)}"
    using r by (intro imageI) (simp add: truthy_def)
  then show "''/__og-image__/font/'' @ n @ ''/'' @ w @ ''.ttf'' \<in> set (prerendered_routes opts s')"
    using b by (simp add: prerendered_routes_def modules_done_def Let_def font_route_def interpolate_def)
qed

theorem shorthand_normalised_witness:
  "normalise_font (FontString ''Inter:700'')
     = \<lparr>name = ''Inter'', weight = Some ''700'', path = None, key = None\<rparr>
   \<and> module_setup (machine ''node-server'' node_bindings True True False) production
       (fresh_nuxt (default_options None [FontString ''Inter:700'']))
     = Inr (projr (module_setup (machine ''node-server'' node_bindings True True False) production
          (fresh_nuxt (default_options None [FontString ''Inter:700'']))))
   \<and> \<lparr>name = ''Inter'', weight = Some ''700'', path = None, key = None\<rparr>
       \<in> set (rendered_fonts production
        (projr (module_setup (machine ''node-server'' node_bindings True True False) production
          (fresh_nuxt (default_options None [FontString ''Inter:700''])))))
   \<and> ''/__og-image__/font/Inter/700.ttf''
       \<in> set (prerendered_routes production
        (projr (module_setup (machine ''node-server'' node_bindings True True False) production
          (fresh_nuxt (default_options None [FontString ''Inter:700''])))))"
  using shorthand_normalised
    [of "''Inter''" "''700''" "machine ''node-server'' node_bindings True True False" production
        "fresh_nuxt (default_options None [FontString ''Inter:700''])"
        "projr (module_setup (machine ''node-server'' node_bindings True True False) production
          (fresh_nuxt (default_options None [FontString ''Inter:700''])))"]
  by (simp add: example_inputs setup_blocks readings)

text \<open>
  C7 as stated fails in one respect: the descriptor that normalisation produces for
  \<^verbatim>\<open>Inter:700\<close> carries no key at all.
\<close>

theorem shorthand_has_no_key:
  "normalise_font (FontString ''Inter:700'')
     = \<lparr>name = ''Inter'', weight = Some ''700'', path = None, key = None\<rparr>
   \<and> key (normalise_font (FontString ''Inter:700'')) = None"
  by (simp add: normalise_font_def element0_def element1_def)

section \<open>Facts about the engine instances\<close>

lemma length_advance [simp]: "length (calls (advance h j s)) = length (calls s)"
  by (auto simp: advance_def split: prod.splits)

lemma length_run [simp]: "length (calls (run h sched s)) = length (calls s)"
  by (induction sched arbitrary: s) auto

lemma kind_of_advance [simp]: "kind_of (advance h j s) i = kind_of s i"
  by (cases "i = j") (auto simp: advance_def kind_of_def split: prod.splits)

lemma kind_of_run [simp]: "kind_of (run h sched s) i = kind_of s i"
  by (induction sched arbitrary: s) auto

lemma state_of_advance_other: "i \<noteq> j \<Longrightarrow> state_of (advance h j s) i = state_of s i"
  by (auto simp: advance_def state_of_def split: prod.splits)

lemma advance_self:
  assumes "i < length (calls s)"
  shows "process (advance h i s) = fst (resume h (kind_of s i) (process s) (state_of s i))"
    and "state_of (advance h i s) i = snd (resume h (kind_of s i) (process s) (state_of s i))"
  using assms by (auto simp: advance_def state_of_def kind_of_def split: prod.splits)

lemma advance_out_of_range: "\<not> j < length (calls s) \<Longrightarrow> advance h j s = s"
  by (simp add: advance_def)

lemma resume_other_cell:
  assumes "c' \<noteq> c"
  shows "instances (fst (resume h c' p st)) c = instances p c"
    and "imported (fst (resume h c' p st)) c = imported p c"
  using assms by (cases st; auto split: option.splits)+

lemma resume_filled:
  assumes "instances p c = Some b" "\<not> awaiting_import st"
  shows "fst (resume h c p st) = p" and "\<not> awaiting_import (snd (resume h c p st))"
  using assms
  by (cases st; auto simp: awaiting_import_def after_assignment_def split: option.splits)+

lemma resume_filled_coherent:
  assumes "instances p c = Some b" "\<not> awaiting_import st" "coherent c b p st"
  shows "coherent c b p (snd (resume h c p st))"
  using assms
  by (cases st; auto simp: coherent_def awaiting_import_def after_assignment_def
        split: option.splits if_splits)

lemma imports_settled_iff:
  "imports_settled c s \<longleftrightarrow> (\<forall>i < length (calls s). kind_of s i = c \<longrightarrow> \<not> awaiting_import (state_of s i))"
  by (auto simp: imports_settled_def list_all_length kind_of_def state_of_def)

lemma advance_filled:
  assumes "instances (process s) c = Some b" "imports_settled c s"
  shows "instances (process (advance h j s)) c = Some b"
    and "imported (process (advance h j s)) c = imported (process s) c"
    and "imports_settled c (advance h j s)"
proof -
  show "instances (process (advance h j s)) c = Some b"
  proof (cases "j < length (calls s)")
    case True
    show ?thesis
    proof (cases "kind_of s j = c")
      case True
      with \<open>j < length (calls s)\<close> assms show ?thesis
        by (simp add: advance_self resume_filled imports_settled_iff)
    next
      case False
      with \<open>j < length (calls s)\<close> assms show ?thesis
        by (simp add: advance_self resume_other_cell)
    qed
  qed (simp add: advance_out_of_range assms)
  show "imported (process (advance h j s)) c = imported (process s) c"
  proof (cases "j < length (calls s)")
    case True
    show ?thesis
    proof (cases "kind_of s j = c")
      case True
      with \<open>j < length (calls s)\<close> assms show ?thesis
        by (simp add: advance_self resume_filled imports_settled_iff)
    next
      case False
      with \<open>j < length (calls s)\<close> assms show ?thesis
        by (simp add: advance_self resume_other_cell)
    qed
  qed (simp add: advance_out_of_range)
  show "imports_settled c (advance h j s)"
    unfolding imports_settled_iff
  proof (intro allI impI)
    fix i assume i: "i < length (calls (advance h j s))" "kind_of (advance h j s) i = c"
    show "\<not> awaiting_import (state_of (advance h j s) i)"
    proof (cases "i = j")
      case True
      with i assms show ?thesis
        by (simp add: advance_self resume_filled imports_settled_iff)
    next
      case False
      with i assms show ?thesis
        by (simp add: state_of_advance_other imports_settled_iff)
    qed
  qed
qed

lemma advance_filled_coherent:
  assumes "instances (process s) c = Some b" "imports_settled c s"
    "i < length (calls s)" "kind_of s i = c" "coherent c b (process s) (state_of s i)"
  shows "coherent c b (process (advance h j s)) (state_of (advance h j s) i)"
proof (cases "i = j")
  case True
  with assms show ?thesis
    by (simp add: advance_self resume_filled resume_filled_coherent imports_settled_iff)
next
  case False
  have "fst (resume h (kind_of s j) (process s) (state_of s j)) = process s
        \<or> kind_of s j \<noteq> c" if "j < length (calls s)"
    using that assms(1,2) by (auto simp: resume_filled imports_settled_iff)
  then have "instances (process (advance h j s)) c = Some b"
    using advance_filled(1) [OF assms(1,2)] by simp
  with False assms(5) show ?thesis
    by (auto simp: state_of_advance_other coherent_def split: call.splits)
qed

lemma run_filled:
  assumes "instances (process s) c = Some b" "imports_settled c s"
  shows "instances (process (run h sched s)) c = Some b"
    and "imported (process (run h sched s)) c = imported (process s) c"
    and "imports_settled c (run h sched s)"
    and "i < length (calls s) \<Longrightarrow> kind_of s i = c \<Longrightarrow> coherent c b (process s) (state_of s i) \<Longrightarrow>
         coherent c b (process (run h sched s)) (state_of (run h sched s) i)"
  using assms
proof (induction sched arbitrary: s)
  case Nil
  { case 1 then show ?case by simp }
  { case 2 then show ?case by simp }
  { case 3 then show ?case by simp }
  { case 4 then show ?case by simp }
next
  case (Cons j sched)
  { case 1 then show ?case using Cons.IH(1) advance_filled by simp }
  { case 2 then show ?case using Cons.IH(2) [of "advance h j s"] advance_filled [of s c b h j] by simp }
  { case 3 then show ?case using Cons.IH(3) advance_filled by simp }
  { case 4 then show ?case
      using Cons.IH(4) [of "advance h j s"] advance_filled [of s c b h j]
        advance_filled_coherent [of s c b i h j] by simp }
qed

lemma coherent_mono:
  assumes "coherent c b p st" "instances p c = None \<or> instances p c = Some b"
    "instances p' c = Some b \<or> instances p' c = instances p c"
  shows "coherent c b p' st"
  using assms by (auto simp: coherent_def split: call.splits)

lemma resume_coherent:
  assumes "always_delivers h c b" "instances p c = None \<or> instances p c = Some b" "coherent c b p st"
  shows "coherent c b (fst (resume h c p st)) (snd (resume h c p st))"
    and "instances (fst (resume h c p st)) c = Some b
         \<or> instances (fst (resume h c p st)) c = instances p c"
  using assms
  by (cases st; auto simp: coherent_def always_delivers_def after_assignment_def
        split: option.splits if_splits)+

lemma advance_coherent:
  assumes "always_delivers h c b" "all_coherent c b s"
  shows "all_coherent c b (advance h j s)"
proof (cases "j < length (calls s)")
  case False
  then show ?thesis using assms by (simp add: advance_out_of_range)
next
  case j: True
  have cell: "instances (process s) c = None \<or> instances (process s) c = Some b"
    using assms(2) by (simp add: all_coherent_def)
  have step: "instances (process (advance h j s)) c = Some b
         \<or> instances (process (advance h j s)) c = instances (process s) c"
  proof (cases "kind_of s j = c")
    case True
    then have "coherent c b (process s) (state_of s j)"
      using assms(2) j by (simp add: all_coherent_def)
    then show ?thesis
      using resume_coherent(2) [OF assms(1) cell] j True by (simp add: advance_self)
  next
    case False
    then show ?thesis using j by (simp add: advance_self resume_other_cell)
  qed
  show ?thesis
    unfolding all_coherent_def
  proof (intro conjI allI impI)
    show "instances (process (advance h j s)) c = None \<or> instances (process (advance h j s)) c = Some b"
      using step cell by auto
    fix i assume i: "i < length (calls (advance h j s))" "kind_of (advance h j s) i = c"
    then have old: "coherent c b (process s) (state_of s i)"
      using assms(2) by (simp add: all_coherent_def)
    show "coherent c b (process (advance h j s)) (state_of (advance h j s) i)"
    proof (cases "i = j")
      case True
      then show ?thesis
        using resume_coherent(1) [OF assms(1) cell old] i j by (simp add: advance_self)
    next
      case False
      then show ?thesis
        using coherent_mono [OF old cell step] by (simp add: state_of_advance_other)
    qed
  qed
qed

lemma run_coherent:
  assumes "always_delivers h c b" "all_coherent c b s"
  shows "all_coherent c b (run h sched s)"
  using assms(2)
  by (induction sched arbitrary: s) (auto intro: advance_coherent [OF assms(1)])

lemma none_started_coherent:
  assumes "instances (process s) c = None" "none_started c s"
  shows "all_coherent c b s"
  using assms
  by (auto simp: all_coherent_def none_started_def list_all_length kind_of_def state_of_def coherent_def)

lemma rank_resume: "min 3 (Suc (rank st)) \<le> rank (snd (resume h c p st))"
  by (cases st) (auto simp: rank_def after_assignment_def split: option.splits)

lemma rank_advance:
  assumes "i < length (calls s)"
  shows "min 3 (rank (state_of s i) + (if i = j then 1 else 0)) \<le> rank (state_of (advance h j s) i)"
proof (cases "i = j")
  case True
  then show ?thesis
    using rank_resume [of "state_of s i" h "kind_of s i" "process s"] assms
    by (simp add: advance_self)
next
  case False
  then show ?thesis by (simp add: state_of_advance_other)
qed

lemma rank_run:
  assumes "i < length (calls s)"
  shows "min 3 (rank (state_of s i) + count_list sched i) \<le> rank (state_of (run h sched s) i)"
  using assms
proof (induction sched arbitrary: s)
  case Nil
  then show ?case by simp
next
  case (Cons j sched)
  have "min 3 (rank (state_of s i) + count_list (j # sched) i)
        \<le> min 3 (rank (state_of (advance h j s) i) + count_list sched i)"
    using rank_advance [OF Cons.prems, of j h] by (cases "i = j") (auto simp: min_def split: if_splits)
  also have "\<dots> \<le> rank (state_of (run h sched (advance h j s)) i)"
    using Cons.IH [of "advance h j s"] Cons.prems by simp
  finally show ?case by simp
qed

lemma settled_coherent:
  assumes "coherent c b p st" "3 \<le> rank st" "c = SharpInstance \<or> initWasm_resolves b"
  shows "st = Returned (exported b)"
  using assms by (cases st) (auto simp: coherent_def rank_def)

lemma concurrent_first_calls:
  assumes "always_delivers h c b" "instances (process s) c = None" "none_started c s"
    "i < length (calls s)" "kind_of s i = c"
  shows "state_of (run h sched s) i = Returned v \<Longrightarrow> v = exported b"
    and "c = SharpInstance \<or> initWasm_resolves b \<Longrightarrow> 3 \<le> count_list sched i \<Longrightarrow>
         state_of (run h sched s) i = Returned (exported b)"
proof -
  have "all_coherent c b (run h sched s)"
    using run_coherent [OF assms(1) none_started_coherent [OF assms(2,3)]] .
  then have co: "coherent c b (process (run h sched s)) (state_of (run h sched s) i)"
    using assms(4,5) by (simp add: all_coherent_def)
  show "v = exported b" if "state_of (run h sched s) i = Returned v"
    using co that by (simp add: coherent_def)
  show "state_of (run h sched s) i = Returned (exported b)"
    if "c = SharpInstance \<or> initWasm_resolves b" "3 \<le> count_list sched i"
  proof -
    have "3 \<le> rank (state_of (run h sched s) i)"
      using rank_run [OF assms(4), of sched h] that(2) by (simp add: min_def split: if_splits)
    then show ?thesis using settled_coherent [OF co _ that(1)] by simp
  qed
qed

lemma use_first:
  assumes "instances p c = None" "h c (imported p c) = Some b" "c = SharpInstance \<or> initWasm_resolves b"
  shows "use_engine h c p =
     (p\<lparr>imported := (imported p)(c := Suc (imported p c)), instances := (instances p)(c \<mapsto> b)\<rparr>,
      Returned (exported b))"
  using assms by (auto simp: use_engine_def after_assignment_def)

lemma use_cached:
  assumes "instances p c = Some b" "c = SharpInstance \<or> initWasm_resolves b"
  shows "use_engine h c p = (p, Returned (exported b))"
  using assms by (auto simp: use_engine_def after_assignment_def)

lemma use_rejected:
  assumes "instances p c = None" "h c (imported p c) = None"
  shows "use_engine h c p = (p\<lparr>imported := (imported p)(c := Suc (imported p c))\<rparr>, Threw ImportRejected)"
  using assms by (auto simp: use_engine_def)

lemma filled_calls:
  assumes "instances (process t) c = Some b" "imports_settled c t"
    "j < length (calls t)" "kind_of t j = c" "state_of t j = Called"
  shows "imported (process (run h sched t)) c = imported (process t) c"
    and "instances (process (run h sched t)) c = Some b"
    and "state_of (run h sched t) j = Returned v \<Longrightarrow> v = exported b"
    and "c = SharpInstance \<or> initWasm_resolves b \<Longrightarrow> 3 \<le> count_list sched j \<Longrightarrow>
         state_of (run h sched t) j = Returned (exported b)"
proof -
  show "imported (process (run h sched t)) c = imported (process t) c"
    and "instances (process (run h sched t)) c = Some b"
    using run_filled(1,2) [OF assms(1,2)] by simp_all
  have "coherent c b (process t) (state_of t j)"
    using assms(5) by (simp add: coherent_def)
  then have co: "coherent c b (process (run h sched t)) (state_of (run h sched t) j)"
    using run_filled(4) [OF assms(1,2,3,4)] by simp
  show "v = exported b" if "state_of (run h sched t) j = Returned v"
    using co that by (simp add: coherent_def)
  show "state_of (run h sched t) j = Returned (exported b)"
    if "c = SharpInstance \<or> initWasm_resolves b" "3 \<le> count_list sched j"
  proof -
    have "3 \<le> rank (state_of (run h sched t) j)"
      using rank_run [OF assms(3), of sched h] that(2) by (simp add: min_def split: if_splits)
    then show ?thesis using settled_coherent [OF co _ that(1)] by simp
  qed
qed

text \<open>
  C3, as the code has it. A call on an empty cell evaluates the import, stores the
  binding it gets and returns its engine. Once the cell holds a binding and no call is
  still suspended on an import, then under every schedule no further import is evaluated,
  the cell keeps that binding, and a call made from then on can only return the engine of
  that binding, which it does once it has run three times. A call that starts while the
  cell is empty evaluates an import of its own, whatever other calls are in flight; when
  the host delivers the same binding for every import, such calls too can only return
  the engine of that binding, and do so once they have run three times.
\<close>

theorem one_import_once_filled:
  "(instances p c = None \<and> h c (imported p c) = Some b \<and> (c = SharpInstance \<or> initWasm_resolves b) \<longrightarrow>
      use_engine h c p =
        (p\<lparr>imported := (imported p)(c := Suc (imported p c)), instances := (instances p)(c \<mapsto> b)\<rparr>,
         Returned (exported b)))
   \<and> (instances (process t) c = Some b \<and> imports_settled c t
        \<and> j < length (calls t) \<and> kind_of t j = c \<and> state_of t j = Called \<longrightarrow>
        imported (process (run h sched t)) c = imported (process t) c
      \<and> instances (process (run h sched t)) c = Some b
      \<and> (\<forall>v. state_of (run h sched t) j = Returned v \<longrightarrow> v = exported b)
      \<and> ((c = SharpInstance \<or> initWasm_resolves b) \<and> 3 \<le> count_list sched j \<longrightarrow>
           state_of (run h sched t) j = Returned (exported b)))
   \<and> (always_delivers h c b \<and> instances (process s) c = None \<and> none_started c s
        \<and> i < length (calls s) \<and> kind_of s i = c \<longrightarrow>
        (\<forall>v. state_of (run h sched' s) i = Returned v \<longrightarrow> v = exported b)
      \<and> ((c = SharpInstance \<or> initWasm_resolves b) \<and> 3 \<le> count_list sched' i \<longrightarrow>
           state_of (run h sched' s) i = Returned (exported b)))
   \<and> (instances p c = None \<longrightarrow>
        resume h c p Called =
          (p\<lparr>imported := (imported p)(c := Suc (imported p c))\<rparr>, AwaitingImport (imported p c)))"
proof -
  have 1: "use_engine h c p =
        (p\<lparr>imported := (imported p)(c := Suc (imported p c)), instances := (instances p)(c \<mapsto> b)\<rparr>,
         Returned (exported b))"
    if "instances p c = None" "h c (imported p c) = Some b" "c = SharpInstance \<or> initWasm_resolves b"
    using that by (rule use_first)
  have 2: "imported (process (run h sched t)) c = imported (process t) c
      \<and> instances (process (run h sched t)) c = Some b
      \<and> (\<forall>v. state_of (run h sched t) j = Returned v \<longrightarrow> v = exported b)
      \<and> ((c = SharpInstance \<or> initWasm_resolves b) \<and> 3 \<le> count_list sched j \<longrightarrow>
           state_of (run h sched t) j = Returned (exported b))"
    if "instances (process t) c = Some b" "imports_settled c t"
        "j < length (calls t)" "kind_of t j = c" "state_of t j = Called"
    using filled_calls [OF that] by blast
  have 3: "(\<forall>v. state_of (run h sched' s) i = Returned v \<longrightarrow> v = exported b)
      \<and> ((c = SharpInstance \<or> initWasm_resolves b) \<and> 3 \<le> count_list sched' i \<longrightarrow>
           state_of (run h sched' s) i = Returned (exported b))"
    if "always_delivers h c b" "instances (process s) c = None" "none_started c s"
        "i < length (calls s)" "kind_of s i = c"
    using concurrent_first_calls [OF that] by blast
  have 4: "resume h c p Called =
          (p\<lparr>imported := (imported p)(c := Suc (imported p c))\<rparr>, AwaitingImport (imported p c))"
    if "instances p c = None"
    using that by simp
  show ?thesis using 1 2 3 4 by blast
qed

theorem one_import_once_filled_witness:
  "use_engine module_map SatoriInstance fresh_process
     = (fresh_process\<lparr>imported := (imported fresh_process)(SatoriInstance := 1),
                      instances := (instances fresh_process)(SatoriInstance \<mapsto> engine7)\<rparr>,
        Returned 7)
   \<and> imported (process (run module_map [0, 1, 1, 0, 0, 1] later_calls)) SatoriInstance = 1
   \<and> state_of (run module_map [0, 1, 1, 0, 0, 1] later_calls) 1 = Returned 7
   \<and> state_of (run module_map [0, 1, 0, 1, 0, 1] two_calls) 1 = Returned 7"
proof -
  have first: "instances fresh_process SatoriInstance = None
      \<and> module_map SatoriInstance (imported fresh_process SatoriInstance) = Some engine7
      \<and> (SatoriInstance = SharpInstance \<or> initWasm_resolves engine7)"
    by (simp add: example_systems)
  have p: "process later_calls =
      fresh_process\<lparr>imported := (imported fresh_process)(SatoriInstance := 1),
                    instances := (instances fresh_process)(SatoriInstance \<mapsto> engine7)\<rparr>"
    by (simp add: later_calls_def example_systems use_engine_def after_assignment_def)
  have later: "instances (process later_calls) SatoriInstance = Some engine7
      \<and> imports_settled SatoriInstance later_calls
      \<and> 1 < length (calls later_calls) \<and> kind_of later_calls 1 = SatoriInstance
      \<and> state_of later_calls 1 = Called"
    by (simp add: p) (simp add: later_calls_def imports_settled_def kind_of_def state_of_def
          awaiting_import_def)
  have count: "(SatoriInstance = SharpInstance \<or> initWasm_resolves engine7)
      \<and> 3 \<le> count_list [0, 1, 1, 0, 0, 1] (1::nat)"
    "(SatoriInstance = SharpInstance \<or> initWasm_resolves engine7)
      \<and> 3 \<le> count_list [0, 1, 0, 1, 0, 1] (1::nat)"
    by (simp_all add: engine7_def)
  have concurrent: "always_delivers module_map SatoriInstance engine7
      \<and> instances (process two_calls) SatoriInstance = None \<and> none_started SatoriInstance two_calls
      \<and> 1 < length (calls two_calls) \<and> kind_of two_calls 1 = SatoriInstance"
    by (simp add: always_delivers_def module_map_def two_calls_def fresh_process_def
          none_started_def kind_of_def)
  have e: "exported engine7 = 7" "imported (process later_calls) SatoriInstance = 1"
    by (simp_all add: engine7_def p)
  note T = one_import_once_filled
    [of fresh_process SatoriInstance module_map engine7 later_calls 1 "[0, 1, 1, 0, 0, 1]"
        two_calls 1 "[0, 1, 0, 1, 0, 1]"]
  have a: "use_engine module_map SatoriInstance fresh_process
     = (fresh_process\<lparr>imported := (imported fresh_process)(SatoriInstance := Suc (imported fresh_process SatoriInstance)),
                      instances := (instances fresh_process)(SatoriInstance \<mapsto> engine7)\<rparr>,
        Returned (exported engine7))"
    using T first by blast
  have b: "imported (process (run module_map [0, 1, 1, 0, 0, 1] later_calls)) SatoriInstance
        = imported (process later_calls) SatoriInstance"
    "state_of (run module_map [0, 1, 1, 0, 0, 1] later_calls) 1 = Returned (exported engine7)"
    using T later count(1) by blast+
  have c: "state_of (run module_map [0, 1, 0, 1, 0, 1] two_calls) 1 = Returned (exported engine7)"
    using T concurrent count(2) by blast
  show ?thesis
    using a b c by (simp add: e fresh_process_def)
qed

text \<open>
  C3 as stated fails: two calls of \<^verbatim>\<open>useSatori\<close> that both start before the first import
  has settled evaluate \<^verbatim>\<open>import()\<close> twice. Here the host delivers the same binding both
  times, so both return the same engine.
\<close>

theorem concurrent_calls_import_twice:
  "imported (process (run module_map [0, 1, 0, 1, 0, 1] two_calls)) SatoriInstance = 2
   \<and> map snd (calls (run module_map [0, 1, 0, 1, 0, 1] two_calls)) = [Returned 7, Returned 7]"
  by (simp add: example_systems advance_def after_assignment_def)

text \<open>
  C4. When the import of a call rejects, the call throws and nothing else changes: the
  step leaves the process as it is. For a call on its own on an empty cell: it throws,
  the cell is still empty afterwards, the next call evaluates a new import, and if that
  import resolves (and the binding initialises) the next call returns its engine and
  fills the cell.
\<close>

theorem rejected_import_not_cached:
  "(h c k = None \<longrightarrow> resume h c p (AwaitingImport k) = (p, Threw ImportRejected))
   \<and> (instances p c = None \<and> h c (imported p c) = None \<longrightarrow>
        use_engine h c p = (p\<lparr>imported := (imported p)(c := Suc (imported p c))\<rparr>, Threw ImportRejected)
      \<and> instances (fst (use_engine h c p)) c = None
      \<and> snd (resume h c (fst (use_engine h c p)) Called) = AwaitingImport (Suc (imported p c))
      \<and> (h c (Suc (imported p c)) = Some b \<and> (c = SharpInstance \<or> initWasm_resolves b) \<longrightarrow>
           snd (use_engine h c (fst (use_engine h c p))) = Returned (exported b)
         \<and> instances (fst (use_engine h c (fst (use_engine h c p)))) c = Some b))"
proof (intro conjI impI)
  show "resume h c p (AwaitingImport k) = (p, Threw ImportRejected)" if "h c k = None"
    using that by simp
next
  assume a: "instances p c = None \<and> h c (imported p c) = None"
  then show u: "use_engine h c p = (p\<lparr>imported := (imported p)(c := Suc (imported p c))\<rparr>, Threw ImportRejected)"
    by (simp add: use_rejected)
  show "instances (fst (use_engine h c p)) c = None"
    using a by (simp add: u)
  show "snd (resume h c (fst (use_engine h c p)) Called) = AwaitingImport (Suc (imported p c))"
    using a by (simp add: u)
  assume b: "h c (Suc (imported p c)) = Some b \<and> (c = SharpInstance \<or> initWasm_resolves b)"
  have "use_engine h c (fst (use_engine h c p)) =
     ((fst (use_engine h c p))\<lparr>imported := (imported (fst (use_engine h c p)))(c := Suc (imported (fst (use_engine h c p)) c)),
         instances := (instances (fst (use_engine h c p)))(c \<mapsto> b)\<rparr>, Returned (exported b))"
    using a b by (intro use_first) (simp_all add: u)
  then show "snd (use_engine h c (fst (use_engine h c p))) = Returned (exported b)"
    "instances (fst (use_engine h c (fst (use_engine h c p)))) c = Some b"
    by simp_all
qed

theorem rejected_import_not_cached_witness:
  "use_engine first_import_rejects SatoriInstance fresh_process
     = (fresh_process\<lparr>imported := (imported fresh_process)(SatoriInstance := 1)\<rparr>, Threw ImportRejected)
   \<and> instances (fst (use_engine first_import_rejects SatoriInstance fresh_process)) SatoriInstance = None
   \<and> snd (use_engine first_import_rejects SatoriInstance
           (fst (use_engine first_import_rejects SatoriInstance fresh_process))) = Returned 7
   \<and> instances (fst (use_engine first_import_rejects SatoriInstance
           (fst (use_engine first_import_rejects SatoriInstance fresh_process)))) SatoriInstance
       = Some engine7"
  using rejected_import_not_cached
    [of first_import_rejects SatoriInstance 0 fresh_process engine7]
  by (simp add: example_systems use_engine_def after_assignment_def)

end
